theory Spec2Isabelle
  imports Main
begin

section \<open>Workspace manager: data model\<close>

text \<open>
  A shallow embedding of \<^verbatim>\<open>pkg/wsm/workspace.go\<close>. The Go methods of
  \<^verbatim>\<open>WorkspaceManager\<close> act on the file system, on the persisted workspace records and on
  external \<^verbatim>\<open>git\<close> processes. Here every method takes the state of that outside world
  (\<open>world\<close>) and returns it updated, and everything the outside decides (whether a command,
  a write or a prompt succeeds) is read from an environment record (\<open>env\<close>).
  Text printed to the terminal and \<^verbatim>\<open>output.LogInfo\<close>/\<^verbatim>\<open>output.LogError\<close> lines are not kept;
  external commands and \<^verbatim>\<open>output.LogWarn\<close> lines are, in the trace of the world.
\<close>

text \<open>
  Modelled from the spec: the declarations of the structs \<^verbatim>\<open>Repository\<close>, \<^verbatim>\<open>Workspace\<close>,
  \<^verbatim>\<open>WorktreeInfo\<close> and \<^verbatim>\<open>RepositoryStatus\<close> are missing from the source files at hand. The
  fields are those of section 3 of the specification, under the names the code uses
  (\<^verbatim>\<open>repo.Name\<close>, \<^verbatim>\<open>workspace.Path\<close>, ...). Where two structs share a field name, the
  second one carries a prefix.
\<close>

record Repository =
  Name :: string
  Path :: string
  RemoteURL :: string
  CurrentBranch :: string
  Branches :: "string list"
  Categories :: "string list"
  LastCommit :: string
  LastUpdated :: nat

record Workspace =
  ws_Name :: string
  ws_Path :: string
  Repositories :: "Repository list"
  Branch :: string
  BaseBranch :: string
  Created :: nat
  GoWorkspace :: bool
  AgentMD :: string

record WorktreeInfo =
  wt_Repository :: Repository
  TargetPath :: string
  wt_Branch :: string

record WorkspaceManager =
  RegistryPath :: string
  Discoverer :: "Repository list"
  workspaceDir :: string

subsection \<open>Errors\<close>

text \<open>
  \<open>New\<close> is \<^verbatim>\<open>errors.New\<close>/\<^verbatim>\<open>errors.Errorf\<close> with the formatted message, \<open>External\<close> an
  error value handed back by the operating system or by a process, and \<open>Wrap e msg\<close> is
  \<^verbatim>\<open>errors.Wrap(e, msg)\<close>. \<open>Error\<close> renders the message as \<^verbatim>\<open>err.Error()\<close> does.
\<close>

datatype error = New string | External string | Wrap error string

fun Error :: "error \<Rightarrow> string" where
  "Error (New msg) = msg"
| "Error (External msg) = msg"
| "Error (Wrap e msg) = msg @ '': '' @ Error e"

subsection \<open>Strings and paths\<close>

fun strings_Join :: "string list \<Rightarrow> string \<Rightarrow> string" where
  "strings_Join [] sep = []"
| "strings_Join [x] sep = x"
| "strings_Join (x # y # ys) sep = x @ sep @ strings_Join (y # ys) sep"

fun strings_Contains :: "string \<Rightarrow> string \<Rightarrow> bool" where
  "strings_Contains [] sub = (sub = [])"
| "strings_Contains (c # s) sub = (take (length sub) (c # s) = sub \<or> strings_Contains s sub)"

definition lower_char :: "char \<Rightarrow> char" where
  "lower_char c =
     (let n = (of_char c :: nat) in if 65 \<le> n \<and> n \<le> 90 then char_of (n + 32) else c)"

definition strings_ToLower :: "string \<Rightarrow> string" where
  "strings_ToLower s = map lower_char s"

text \<open>
  \<^verbatim>\<open>filepath.Join\<close> on two elements: empty elements are dropped, the others are joined by the
  separator. The final \<^verbatim>\<open>Clean\<close> is not modelled: paths are taken to be clean already.
\<close>

definition filepath_Join :: "string \<Rightarrow> string \<Rightarrow> string" where
  "filepath_Join a b = (if a = [] then b else if b = [] then a else a @ ''/'' @ b)"

definition filepath_Dir :: "string \<Rightarrow> string" where
  "filepath_Dir p =
     (if CHR ''/'' \<in> set p then
        (let d = butlast (rev (dropWhile (\<lambda>c. c \<noteq> CHR ''/'') (rev p)))
         in if d = [] then ''/'' else d)
      else ''.'')"

definition quoted :: "string \<Rightarrow> string" where
  "quoted s = CHR 0x27 # s @ [CHR 0x27]"

subsection \<open>The outside world\<close>

datatype event =
    Exec string "string list" "(string \<times> string) option"
  | LogWarn string

datatype stored = Good Workspace | Unreadable string | Unparsable string

record world =
  fs :: "string list"
  saved :: "string \<Rightarrow> stored option"
  trace :: "event list"

text \<open>
  \<open>fs\<close> lists the paths that exist; a path also exists when something below it does.
  \<open>saved\<close> is the directory of persisted workspace records, the file \<^verbatim>\<open><name>.json\<close> under
  the key \<open>name\<close>. \<open>trace\<close> records, oldest first, each external command (working directory,
  argument list, and \<open>Some (error, output)\<close> when it failed) and each logged warning.

  The environment answers for everything outside the program. A command's outcome depends on
  its working directory and arguments only.
\<close>

record env =
  git_run :: "string \<Rightarrow> string list \<Rightarrow> (string \<times> string) option"
  form_run :: "string \<Rightarrow> string + string"
  scanln :: "string \<Rightarrow> string option"
  stat_err :: "string \<Rightarrow> string option"
  mkdir_err :: "string \<Rightarrow> string option"
  readdir_err :: "string \<Rightarrow> string option"
  read_file :: "string \<Rightarrow> string + string"
  write_err :: "string \<Rightarrow> string option"
  remove_err :: "string \<Rightarrow> string option"
  remove_all_err :: "string \<Rightarrow> string option"
  home_dir :: "string + string"
  config_dir :: "string + string"
  time_Now :: nat

definition below :: "string \<Rightarrow> string \<Rightarrow> bool" where
  "below d p = (take (Suc (length d)) p = d @ ''/'')"

definition fs_exists :: "world \<Rightarrow> string \<Rightarrow> bool" where
  "fs_exists w p = list_ex (\<lambda>q. q = p \<or> below p q) (fs w)"

definition fs_add :: "string \<Rightarrow> world \<Rightarrow> world" where
  "fs_add p w = w\<lparr>fs := List.insert p (fs w)\<rparr>"

definition fs_remove_tree :: "string \<Rightarrow> world \<Rightarrow> world" where
  "fs_remove_tree p w = w\<lparr>fs := filter (\<lambda>q. \<not> (q = p \<or> below p q)) (fs w)\<rparr>"

definition emit :: "event \<Rightarrow> world \<Rightarrow> world" where
  "emit e w = w\<lparr>trace := trace w @ [e]\<rparr>"

datatype stat_result = StatOk | StatNotExist | StatError string

definition os_Stat :: "env \<Rightarrow> world \<Rightarrow> string \<Rightarrow> stat_result" where
  "os_Stat E w p =
     (case stat_err E p of
        Some e \<Rightarrow> StatError e
      | None \<Rightarrow> if fs_exists w p then StatOk else StatNotExist)"

definition os_MkdirAll :: "env \<Rightarrow> string \<Rightarrow> world \<Rightarrow> error option \<times> world" where
  "os_MkdirAll E p w =
     (case mkdir_err E p of
        Some e \<Rightarrow> (Some (External e), w)
      | None \<Rightarrow> (None, fs_add p w))"

text \<open>The file system keeps no file contents: the data written only has to be there.\<close>

definition os_WriteFile :: "env \<Rightarrow> string \<Rightarrow> string \<Rightarrow> world \<Rightarrow> error option \<times> world" where
  "os_WriteFile E p data w =
     (case write_err E p of
        Some e \<Rightarrow> (Some (External e), w)
      | None \<Rightarrow> (None, fs_add p w))"

definition os_RemoveAll :: "env \<Rightarrow> string \<Rightarrow> world \<Rightarrow> error option \<times> world" where
  "os_RemoveAll E p w =
     (case remove_all_err E p of
        Some e \<Rightarrow> (Some (External e), w)
      | None \<Rightarrow> (None, fs_remove_tree p w))"

definition os_Remove :: "env \<Rightarrow> string \<Rightarrow> world \<Rightarrow> error option \<times> world" where
  "os_Remove E p w =
     (case remove_err E p of
        Some e \<Rightarrow> (Some (External e), w)
      | None \<Rightarrow> (None, w\<lparr>fs := removeAll p (fs w)\<rparr>))"

text \<open>The names of the entries of directory \<open>d\<close>: the first component below \<open>d\<close> of every path.
  Reading a directory that does not exist is an error.\<close>

definition os_ReadDir :: "env \<Rightarrow> world \<Rightarrow> string \<Rightarrow> string + string list" where
  "os_ReadDir E w d =
     (case readdir_err E d of
        Some e \<Rightarrow> Inl e
      | None \<Rightarrow>
          if \<not> fs_exists w d then Inl ''no such file or directory'' else
          Inr (remdups (map (\<lambda>q. takeWhile (\<lambda>c. c \<noteq> CHR ''/'') (drop (Suc (length d)) q))
                 (filter (\<lambda>q. below d q \<and> drop (Suc (length d)) q \<noteq> []) (fs w)))))"

text \<open>
  \<^verbatim>\<open>cmd.CombinedOutput()\<close> of a command run in directory \<open>dir\<close>. A successful
  \<^verbatim>\<open>git worktree add\<close> makes the target path exist, a successful \<^verbatim>\<open>git worktree remove\<close>
  removes it with what is below it; a failed command changes nothing on disk.
\<close>

definition add_target :: "string list \<Rightarrow> string option" where
  "add_target args =
     (if take 3 args = [''git'', ''worktree'', ''add''] then
        (case drop 3 args of
           [t] \<Rightarrow> Some t
         | [t, b] \<Rightarrow> Some t
         | [f, b, t] \<Rightarrow> Some t
         | [f, b, t, r] \<Rightarrow> Some t
         | _ \<Rightarrow> None)
      else None)"

definition remove_target :: "string list \<Rightarrow> string option" where
  "remove_target args =
     (if take 3 args = [''git'', ''worktree'', ''remove''] then
        (case drop 3 args of
           [t] \<Rightarrow> Some t
         | [f, t] \<Rightarrow> Some t
         | _ \<Rightarrow> None)
      else None)"

definition run_cmd :: "env \<Rightarrow> string \<Rightarrow> string list \<Rightarrow> world \<Rightarrow> (string \<times> string) option \<times> world" where
  "run_cmd E dir args w =
     (let r = git_run E dir args;
          w1 = emit (Exec dir args r) w
      in case r of
           Some failure \<Rightarrow> (r, w1)
         | None \<Rightarrow>
             (r, case add_target args of
                   Some t \<Rightarrow> fs_add t w1
                 | None \<Rightarrow> (case remove_target args of
                              Some t \<Rightarrow> fs_remove_tree t w1
                            | None \<Rightarrow> w1)))"

section \<open>Resolving repositories\<close>

fun find_loop ::
  "(string \<Rightarrow> Repository option) \<Rightarrow> string list \<Rightarrow> Repository list \<Rightarrow> string list
     \<Rightarrow> Repository list \<times> string list" where
  "find_loop repoMap [] repos notFound = (repos, notFound)"
| "find_loop repoMap (name # names) repos notFound =
     (case repoMap name of
        Some repo \<Rightarrow> find_loop repoMap names (repos @ [repo]) notFound
      | None \<Rightarrow> find_loop repoMap names repos (notFound @ [name]))"

definition FindRepositories :: "WorkspaceManager \<Rightarrow> string list \<Rightarrow> error + Repository list" where
  "FindRepositories wm repoNames =
     (let allRepos = Discoverer wm;
          repoMap = foldl (\<lambda>m repo. m(Name repo \<mapsto> repo)) Map.empty allRepos;
          (repos, notFound) = find_loop repoMap repoNames [] []
      in if length notFound > 0
         then Inl (New (''repositories not found: '' @ strings_Join notFound '', ''))
         else Inr repos)"

fun shouldCreateGoWorkspace :: "Repository list \<Rightarrow> bool" where
  "shouldCreateGoWorkspace [] = False"
| "shouldCreateGoWorkspace (repo # repos) =
     (if list_ex (\<lambda>category. category = ''go'') (Categories repo) then True
      else shouldCreateGoWorkspace repos)"

section \<open>Worktree orchestration\<close>

definition ExecuteWorktreeCommand ::
  "env \<Rightarrow> string \<Rightarrow> string list \<Rightarrow> world \<Rightarrow> error option \<times> world" where
  "ExecuteWorktreeCommand E repoPath args w =
     (case run_cmd E repoPath args w of
        (Some (err, cmdOutput), w1) \<Rightarrow>
          (Some (Wrap (External err) (''git command failed: '' @ cmdOutput)), w1)
      | (None, w1) \<Rightarrow> (None, w1))"

text \<open>Both checks return \<^verbatim>\<open>err == nil\<close> of \<^verbatim>\<open>git show-ref\<close> and never an error of their own.\<close>

definition CheckBranchExists :: "env \<Rightarrow> string \<Rightarrow> string \<Rightarrow> world \<Rightarrow> bool \<times> world" where
  "CheckBranchExists E repoPath branch w =
     (case run_cmd E repoPath
             [''git'', ''show-ref'', ''--verify'', ''--quiet'', ''refs/heads/'' @ branch] w of
        (r, w1) \<Rightarrow> (r = None, w1))"

definition CheckRemoteBranchExists :: "env \<Rightarrow> string \<Rightarrow> string \<Rightarrow> world \<Rightarrow> bool \<times> world" where
  "CheckRemoteBranchExists E repoPath branch w =
     (case run_cmd E repoPath
             [''git'', ''show-ref'', ''--verify'', ''--quiet'', ''refs/remotes/origin/'' @ branch] w of
        (r, w1) \<Rightarrow> (r = None, w1))"

text \<open>
  \<^verbatim>\<open>createWorktree\<close>, the checkout of one repository during Create. The answer of the
  interactive form comes from \<open>form_run\<close>, keyed by the repository's name.
\<close>

definition createWorktree ::
  "env \<Rightarrow> Workspace \<Rightarrow> Repository \<Rightarrow> world \<Rightarrow> error option \<times> world" where
  "createWorktree E workspace repo w =
     (let targetPath = filepath_Join (ws_Path workspace) (Name repo) in
      if Branch workspace = [] then
        ExecuteWorktreeCommand E (Path repo) [''git'', ''worktree'', ''add'', targetPath] w
      else
        (case CheckBranchExists E (Path repo) (Branch workspace) w of (branchExists, w1) \<Rightarrow>
         case CheckRemoteBranchExists E (Path repo) (Branch workspace) w1 of
           (remoteBranchExists, w2) \<Rightarrow>
         if branchExists then
           (case form_run E (Name repo) of
              Inl err \<Rightarrow>
                (let errMsg = strings_ToLower err in
                 if strings_Contains errMsg ''user aborted'' \<or>
                    strings_Contains errMsg ''cancelled'' \<or>
                    strings_Contains errMsg ''aborted'' \<or>
                    strings_Contains errMsg ''interrupt''
                 then (Some (New ''workspace creation cancelled by user''), w2)
                 else (Some (Wrap (External err) ''failed to get user choice''), w2))
            | Inr choice \<Rightarrow>
                if choice = ''overwrite'' then
                  (if remoteBranchExists then
                     ExecuteWorktreeCommand E (Path repo)
                       [''git'', ''worktree'', ''add'', ''-B'', Branch workspace, targetPath,
                        ''origin/'' @ Branch workspace] w2
                   else
                     ExecuteWorktreeCommand E (Path repo)
                       [''git'', ''worktree'', ''add'', ''-B'', Branch workspace, targetPath] w2)
                else if choice = ''use'' then
                  ExecuteWorktreeCommand E (Path repo)
                    [''git'', ''worktree'', ''add'', targetPath, Branch workspace] w2
                else if choice = ''cancel'' then
                  (Some (New ''workspace creation cancelled by user''), w2)
                else (Some (New ''invalid choice, workspace creation cancelled''), w2))
         else if remoteBranchExists then
           ExecuteWorktreeCommand E (Path repo)
             [''git'', ''worktree'', ''add'', ''-b'', Branch workspace, targetPath,
              ''origin/'' @ Branch workspace] w2
         else
           ExecuteWorktreeCommand E (Path repo)
             [''git'', ''worktree'', ''add'', ''-b'', Branch workspace, targetPath] w2))"

text \<open>
  \<^verbatim>\<open>CreateWorktreeForAdd\<close>, the checkout of one repository during AddRepository. The line
  read by \<^verbatim>\<open>fmt.Scanln\<close> comes from \<open>scanln\<close>; a failed read counts as the answer \<^verbatim>\<open>c\<close>.
\<close>

definition CreateWorktreeForAdd ::
  "env \<Rightarrow> Workspace \<Rightarrow> Repository \<Rightarrow> string \<Rightarrow> bool \<Rightarrow> world \<Rightarrow> error option \<times> world" where
  "CreateWorktreeForAdd E workspace repo branch forceOverwrite w =
     (let targetPath = filepath_Join (ws_Path workspace) (Name repo) in
      if os_Stat E w targetPath = StatOk then
        (Some (New (''target path '' @ quoted targetPath @ '' already exists'')), w)
      else if branch = [] then
        ExecuteWorktreeCommand E (Path repo) [''git'', ''worktree'', ''add'', targetPath] w
      else
        (case CheckBranchExists E (Path repo) branch w of (branchExists, w1) \<Rightarrow>
         case CheckRemoteBranchExists E (Path repo) branch w1 of (remoteBranchExists, w2) \<Rightarrow>
         if branchExists then
           (if forceOverwrite then
              (if remoteBranchExists then
                 ExecuteWorktreeCommand E (Path repo)
                   [''git'', ''worktree'', ''add'', ''-B'', branch, targetPath, ''origin/'' @ branch] w2
               else
                 ExecuteWorktreeCommand E (Path repo)
                   [''git'', ''worktree'', ''add'', ''-B'', branch, targetPath] w2)
            else
              (let choice = strings_ToLower (case scanln E (Name repo) of None \<Rightarrow> ''c'' | Some s \<Rightarrow> s) in
               if choice = ''o'' \<or> choice = ''overwrite'' then
                 (if remoteBranchExists then
                    ExecuteWorktreeCommand E (Path repo)
                      [''git'', ''worktree'', ''add'', ''-B'', branch, targetPath, ''origin/'' @ branch] w2
                  else
                    ExecuteWorktreeCommand E (Path repo)
                      [''git'', ''worktree'', ''add'', ''-B'', branch, targetPath] w2)
               else if choice = ''u'' \<or> choice = ''use'' then
                 ExecuteWorktreeCommand E (Path repo)
                   [''git'', ''worktree'', ''add'', targetPath, branch] w2
               else if choice = ''c'' \<or> choice = ''cancel'' then
                 (Some (New ''operation cancelled by user''), w2)
               else (Some (New ''invalid choice, operation cancelled''), w2)))
         else if remoteBranchExists then
           ExecuteWorktreeCommand E (Path repo)
             [''git'', ''worktree'', ''add'', ''-b'', branch, targetPath, ''origin/'' @ branch] w2
         else
           ExecuteWorktreeCommand E (Path repo)
             [''git'', ''worktree'', ''add'', ''-b'', branch, targetPath] w2))"

text \<open>\<^verbatim>\<open>removeWorktreeForRepo\<close>, the teardown of one repository during RemoveRepository.\<close>

definition removeWorktreeForRepo ::
  "env \<Rightarrow> Repository \<Rightarrow> string \<Rightarrow> bool \<Rightarrow> world \<Rightarrow> error option \<times> world" where
  "removeWorktreeForRepo E repo worktreePath force w =
     (case os_Stat E w worktreePath of
        StatNotExist \<Rightarrow> (None, w)
      | StatError err \<Rightarrow>
          (Some (Wrap (External err) (''error checking worktree path: '' @ worktreePath)), w)
      | StatOk \<Rightarrow>
          (case run_cmd E (Path repo) [''git'', ''worktree'', ''list''] w of (listed, w1) \<Rightarrow>
           (case run_cmd E (Path repo)
                   (if force then [''git'', ''worktree'', ''remove'', ''--force'', worktreePath]
                    else [''git'', ''worktree'', ''remove'', worktreePath]) w1 of
              (Some (err, cmdOutput), w2) \<Rightarrow>
                (Some (Wrap (External err) (''failed to remove worktree: '' @ cmdOutput)), w2)
            | (None, w2) \<Rightarrow>
                (case run_cmd E (Path repo) [''git'', ''worktree'', ''list''] w2 of
                   (listed2, w3) \<Rightarrow> (None, w3)))))"

section \<open>Descriptor, agent file and persisted records\<close>

fun go_work_uses :: "env \<Rightarrow> world \<Rightarrow> string \<Rightarrow> Repository list \<Rightarrow> string" where
  "go_work_uses E w root [] = []"
| "go_work_uses E w root (repo # repos) =
     (let goModPath = filepath_Join (filepath_Join root (Name repo)) ''go.mod'' in
      (if os_Stat E w goModPath = StatOk then [CHR 0x09] @ ''./'' @ Name repo @ [CHR 0x0A] else [])
      @ go_work_uses E w root repos)"

definition CreateGoWorkspace :: "env \<Rightarrow> Workspace \<Rightarrow> world \<Rightarrow> error option \<times> world" where
  "CreateGoWorkspace E workspace w =
     (let goWorkPath = filepath_Join (ws_Path workspace) ''go.work'';
          content = ''go 1.23'' @ [CHR 0x0A, CHR 0x0A] @ ''use ('' @ [CHR 0x0A]
                    @ go_work_uses E w (ws_Path workspace) (Repositories workspace)
                    @ '')'' @ [CHR 0x0A]
      in case os_WriteFile E goWorkPath content w of
           (Some err, w1) \<Rightarrow> (Some (Wrap err ''failed to write go.work file''), w1)
         | (None, w1) \<Rightarrow> (None, w1))"

definition copyAgentMD :: "env \<Rightarrow> Workspace \<Rightarrow> world \<Rightarrow> error option \<times> world" where
  "copyAgentMD E workspace w =
     (let expanded =
            (if take 1 (AgentMD workspace) = ''~'' then
               (case home_dir E of
                  Inl err \<Rightarrow> Inl (Wrap (External err) ''failed to get home directory'')
                | Inr home \<Rightarrow> Inr (filepath_Join home (drop 1 (AgentMD workspace))))
             else Inr (AgentMD workspace))
      in case expanded of
           Inl err \<Rightarrow> (Some err, w)
         | Inr source \<Rightarrow>
             (let target = filepath_Join (ws_Path workspace) ''AGENT.md'' in
              case read_file E source of
                Inl err \<Rightarrow>
                  (Some (Wrap (External err) (''failed to read source file: '' @ source)), w)
              | Inr data \<Rightarrow>
                  (case os_WriteFile E target data w of
                     (Some err, w1) \<Rightarrow>
                       (Some (Wrap err (''failed to write target file: '' @ target)), w1)
                   | (None, w1) \<Rightarrow> (None, w1))))"

text \<open>
  \<^verbatim>\<open>SaveWorkspace\<close> writes the record file \<^verbatim>\<open><name>.json\<close>; \<^verbatim>\<open>json.MarshalIndent\<close> does not
  fail on this struct. The record files live in \<open>saved\<close>, not in \<open>fs\<close>.
\<close>

definition SaveWorkspace ::
  "env \<Rightarrow> WorkspaceManager \<Rightarrow> Workspace \<Rightarrow> world \<Rightarrow> error option \<times> world" where
  "SaveWorkspace E wm workspace w =
     (let workspacesDir = filepath_Join (filepath_Dir (RegistryPath wm)) ''workspaces'' in
      case os_MkdirAll E workspacesDir w of
        (Some err, w1) \<Rightarrow> (Some (Wrap err ''failed to create workspaces directory''), w1)
      | (None, w1) \<Rightarrow>
          (let configPath = filepath_Join workspacesDir (ws_Name workspace @ ''.json'') in
           case write_err E configPath of
             Some err \<Rightarrow>
               (Some (Wrap (External err) ''failed to write workspace configuration''), w1)
           | None \<Rightarrow> (None, w1\<lparr>saved := (saved w1)(ws_Name workspace \<mapsto> Good workspace)\<rparr>)))"

definition config_path :: "string \<Rightarrow> string \<Rightarrow> string" where
  "config_path configDir name =
     filepath_Join (filepath_Join (filepath_Join configDir ''workspace-manager'') ''workspaces'')
       (name @ ''.json'')"

text \<open>\<^verbatim>\<open>os.Stat\<close> reports the record file as missing exactly when \<open>saved\<close> has no entry.\<close>

definition LoadWorkspace :: "env \<Rightarrow> world \<Rightarrow> string \<Rightarrow> error + Workspace" where
  "LoadWorkspace E w name =
     (case config_dir E of
        Inl err \<Rightarrow> Inl (External err)
      | Inr configDir \<Rightarrow>
          (let workspacePath = config_path configDir name in
           case saved w name of
             None \<Rightarrow> Inl (New (''workspace '' @ quoted name @ '' not found''))
           | Some (Unreadable err) \<Rightarrow>
               Inl (Wrap (External err) (''failed to read workspace file: '' @ workspacePath))
           | Some (Unparsable err) \<Rightarrow>
               Inl (Wrap (External err) (''failed to parse workspace file: '' @ workspacePath))
           | Some (Good workspace) \<Rightarrow> Inr workspace))"

section \<open>Rollback coordinator\<close>

text \<open>
  The loop \<^verbatim>\<open>for i := len(worktrees) - 1; i >= 0; i--\<close>: the counter of \<open>rollback_loop\<close> is
  \<open>i + 1\<close>, so the loop ends at \<open>0\<close>.
\<close>

fun rollback_loop :: "env \<Rightarrow> WorktreeInfo list \<Rightarrow> nat \<Rightarrow> world \<Rightarrow> world" where
  "rollback_loop E worktrees 0 w = w"
| "rollback_loop E worktrees (Suc i) w =
     (let worktree = worktrees ! i in
      case run_cmd E (Path (wt_Repository worktree))
             [''git'', ''worktree'', ''remove'', ''--force'', TargetPath worktree] w of
        (Some failure, w1) \<Rightarrow>
          rollback_loop E worktrees i
            (emit (LogWarn ''Failed to remove worktree during rollback'') w1)
      | (None, w1) \<Rightarrow> rollback_loop E worktrees i w1)"

definition rollbackWorktrees :: "env \<Rightarrow> WorktreeInfo list \<Rightarrow> world \<Rightarrow> world" where
  "rollbackWorktrees E worktrees w =
     (if length worktrees = 0 then w else rollback_loop E worktrees (length worktrees) w)"

definition expectedFiles :: "string list" where
  "expectedFiles = [''go.work'', ''AGENT.md'', ''.gitignore'']"

definition cleanupWorkspaceDirectory :: "env \<Rightarrow> string \<Rightarrow> world \<Rightarrow> world" where
  "cleanupWorkspaceDirectory E workspacePath w =
     (if workspacePath = [] then w
      else if os_Stat E w workspacePath = StatNotExist then w
      else
        (case os_ReadDir E w workspacePath of
           Inl err \<Rightarrow> emit (LogWarn ''Failed to read workspace directory during cleanup'') w
         | Inr entries \<Rightarrow>
             (let isEmpty = (length entries = 0);
                  onlyExpectedFiles = list_all (\<lambda>entry. entry \<in> set expectedFiles) entries
              in if isEmpty \<or> onlyExpectedFiles then
                   (case os_RemoveAll E workspacePath w of
                      (Some err, w1) \<Rightarrow>
                        emit (LogWarn ''Failed to remove workspace directory during cleanup'') w1
                    | (None, w1) \<Rightarrow> w1)
                 else w)))"

section \<open>Create\<close>

fun createWorktrees_loop ::
  "env \<Rightarrow> Workspace \<Rightarrow> Repository list \<Rightarrow> WorktreeInfo list \<Rightarrow> world
     \<Rightarrow> (error + WorktreeInfo list) \<times> world" where
  "createWorktrees_loop E workspace [] createdWorktrees w = (Inr createdWorktrees, w)"
| "createWorktrees_loop E workspace (repo # repos) createdWorktrees w =
     (let worktreeInfo = \<lparr>wt_Repository = repo,
                          TargetPath = filepath_Join (ws_Path workspace) (Name repo),
                          wt_Branch = Branch workspace\<rparr>
      in case createWorktree E workspace repo w of
           (Some err, w1) \<Rightarrow>
             (Inl (Wrap err (''failed to create worktree for '' @ Name repo)),
              cleanupWorkspaceDirectory E (ws_Path workspace)
                (rollbackWorktrees E createdWorktrees w1))
         | (None, w1) \<Rightarrow>
             createWorktrees_loop E workspace repos (createdWorktrees @ [worktreeInfo]) w1)"

definition createWorkspaceStructure :: "env \<Rightarrow> Workspace \<Rightarrow> world \<Rightarrow> error option \<times> world" where
  "createWorkspaceStructure E workspace w =
     (case os_MkdirAll E (ws_Path workspace) w of
        (Some err, w1) \<Rightarrow>
          (Some (Wrap err (''failed to create workspace directory: '' @ ws_Path workspace)), w1)
      | (None, w1) \<Rightarrow>
          (case createWorktrees_loop E workspace (Repositories workspace) [] w1 of
             (Inl err, w2) \<Rightarrow> (Some err, w2)
           | (Inr createdWorktrees, w2) \<Rightarrow>
               (case (if GoWorkspace workspace then CreateGoWorkspace E workspace w2
                      else (None, w2)) of
                  (Some err, w3) \<Rightarrow>
                    (Some (Wrap err ''failed to create go.work file''),
                     cleanupWorkspaceDirectory E (ws_Path workspace)
                       (rollbackWorktrees E createdWorktrees w3))
                | (None, w3) \<Rightarrow>
                    (case (if AgentMD workspace \<noteq> [] then copyAgentMD E workspace w3
                           else (None, w3)) of
                       (Some err, w4) \<Rightarrow>
                         (Some (Wrap err ''failed to copy AGENT.md''),
                          cleanupWorkspaceDirectory E (ws_Path workspace)
                            (rollbackWorktrees E createdWorktrees w4))
                     | (None, w4) \<Rightarrow> (None, w4)))))"

definition CreateWorkspace ::
  "env \<Rightarrow> WorkspaceManager \<Rightarrow> string \<Rightarrow> string list \<Rightarrow> string \<Rightarrow> string \<Rightarrow> bool \<Rightarrow> world
     \<Rightarrow> (error + Workspace) \<times> world" where
  "CreateWorkspace E wm name repoNames branch agentSource dryRun w =
     (if name = [] then (Inl (New ''workspace name is required''), w)
      else
        (case FindRepositories wm repoNames of
           Inl err \<Rightarrow> (Inl (Wrap err ''failed to find repositories''), w)
         | Inr repos \<Rightarrow>
             (let workspacePath = filepath_Join (workspaceDir wm) name;
                  workspace = \<lparr>ws_Name = name, ws_Path = workspacePath, Repositories = repos,
                               Branch = branch, BaseBranch = [], Created = time_Now E,
                               GoWorkspace = shouldCreateGoWorkspace repos,
                               AgentMD = agentSource\<rparr>
              in if dryRun then (Inr workspace, w)
                 else
                   (case createWorkspaceStructure E workspace w of
                      (Some err, w1) \<Rightarrow>
                        (Inl (Wrap err ''failed to create workspace structure''), w1)
                    | (None, w1) \<Rightarrow>
                        (case SaveWorkspace E wm workspace w1 of
                           (Some err, w2) \<Rightarrow>
                             (Inl (Wrap err ''failed to save workspace configuration''), w2)
                         | (None, w2) \<Rightarrow> (Inr workspace, w2))))))"

section \<open>Delete\<close>

fun list_worktrees :: "env \<Rightarrow> Repository list \<Rightarrow> world \<Rightarrow> world" where
  "list_worktrees E [] w = w"
| "list_worktrees E (repo # repos) w =
     (case run_cmd E (Path repo) [''git'', ''worktree'', ''list''] w of
        (listed, w1) \<Rightarrow> list_worktrees E repos w1)"

text \<open>The middle loop of \<^verbatim>\<open>removeWorktrees\<close>; \<open>errs\<close> collects the failures.\<close>

fun removeWorktrees_loop ::
  "env \<Rightarrow> Workspace \<Rightarrow> bool \<Rightarrow> Repository list \<Rightarrow> error list \<Rightarrow> world
     \<Rightarrow> error list \<times> world" where
  "removeWorktrees_loop E workspace force [] errs w = (errs, w)"
| "removeWorktrees_loop E workspace force (repo # repos) errs w =
     (let worktreePath = filepath_Join (ws_Path workspace) (Name repo) in
      case os_Stat E w worktreePath of
        StatNotExist \<Rightarrow> removeWorktrees_loop E workspace force repos errs w
      | StatError err \<Rightarrow> removeWorktrees_loop E workspace force repos errs w
      | StatOk \<Rightarrow>
          (case run_cmd E (Path repo)
                  (if force then [''git'', ''worktree'', ''remove'', ''--force'', worktreePath]
                   else [''git'', ''worktree'', ''remove'', worktreePath]) w of
             (Some (err, cmdOutput), w1) \<Rightarrow>
               removeWorktrees_loop E workspace force repos
                 (errs @ [Wrap (External err)
                            (''failed to remove worktree for '' @ Name repo @ '': '' @ cmdOutput)])
                 w1
           | (None, w1) \<Rightarrow> removeWorktrees_loop E workspace force repos errs w1))"

definition removeWorktrees :: "env \<Rightarrow> Workspace \<Rightarrow> bool \<Rightarrow> world \<Rightarrow> error option \<times> world" where
  "removeWorktrees E workspace force w =
     (let w1 = list_worktrees E (Repositories workspace) w in
      case removeWorktrees_loop E workspace force (Repositories workspace) [] w1 of
        (errs, w2) \<Rightarrow>
          (let w3 = list_worktrees E (Repositories workspace) w2 in
           if length errs > 0 then
             (Some (New (''failed to remove some worktrees: '' @ strings_Join (map Error errs) ''; '')),
              w3)
           else (None, w3)))"

definition logWorkspaceFilesToRemove :: "env \<Rightarrow> string \<Rightarrow> world \<Rightarrow> error option" where
  "logWorkspaceFilesToRemove E workspacePath w =
     (case os_ReadDir E w workspacePath of
        Inl err \<Rightarrow> Some (External err)
      | Inr entries \<Rightarrow> None)"

fun cleanup_files_loop :: "env \<Rightarrow> string \<Rightarrow> string list \<Rightarrow> world \<Rightarrow> error option \<times> world" where
  "cleanup_files_loop E workspacePath [] w = (None, w)"
| "cleanup_files_loop E workspacePath (fileName # fileNames) w =
     (let filePath = filepath_Join workspacePath fileName in
      case os_Stat E w filePath of
        StatOk \<Rightarrow>
          (case os_Remove E filePath w of
             (Some err, w1) \<Rightarrow>
               (Some (Wrap err (''failed to remove '' @ filePath)),
                emit (LogWarn ''Failed to remove workspace-specific file'') w1)
           | (None, w1) \<Rightarrow> cleanup_files_loop E workspacePath fileNames w1)
      | StatNotExist \<Rightarrow> cleanup_files_loop E workspacePath fileNames w
      | StatError err \<Rightarrow>
          cleanup_files_loop E workspacePath fileNames
            (emit (LogWarn ''Error checking workspace-specific file'') w))"

definition cleanupWorkspaceSpecificFiles :: "env \<Rightarrow> string \<Rightarrow> world \<Rightarrow> error option \<times> world" where
  "cleanupWorkspaceSpecificFiles E workspacePath w =
     cleanup_files_loop E workspacePath [''go.work'', ''go.work.sum'', ''AGENT.md''] w"

text \<open>The last step of \<^verbatim>\<open>DeleteWorkspace\<close>: removing the persisted record.\<close>

definition remove_config :: "env \<Rightarrow> string \<Rightarrow> world \<Rightarrow> error option \<times> world" where
  "remove_config E name w =
     (case config_dir E of
        Inl err \<Rightarrow> (Some (Wrap (External err) ''failed to get config directory''), w)
      | Inr configDir \<Rightarrow>
          (let configPath = config_path configDir name in
           case saved w name of
             None \<Rightarrow> (None, w)
           | Some rec \<Rightarrow>
               (case remove_err E configPath of
                  Some err \<Rightarrow>
                    (Some (Wrap (External err)
                             (''failed to remove workspace configuration: '' @ configPath)), w)
                | None \<Rightarrow> (None, w\<lparr>saved := (saved w)(name := None)\<rparr>))))"

definition DeleteWorkspace ::
  "env \<Rightarrow> WorkspaceManager \<Rightarrow> string \<Rightarrow> bool \<Rightarrow> bool \<Rightarrow> world \<Rightarrow> error option \<times> world" where
  "DeleteWorkspace E wm name removeFiles forceWorktrees w =
     (case LoadWorkspace E w name of
        Inl err \<Rightarrow> (Some (Wrap err (''failed to load workspace '' @ quoted name)), w)
      | Inr workspace \<Rightarrow>
          (case removeWorktrees E workspace forceWorktrees w of
             (Some err, w1) \<Rightarrow> (Some (Wrap err ''failed to remove worktrees''), w1)
           | (None, w1) \<Rightarrow>
               (if removeFiles then
                  (if os_Stat E w1 (ws_Path workspace) = StatOk then
                     (let w2 = (case logWorkspaceFilesToRemove E (ws_Path workspace) w1 of
                                  Some err \<Rightarrow>
                                    emit (LogWarn ''Failed to enumerate workspace files for logging'') w1
                                | None \<Rightarrow> w1)
                      in case os_RemoveAll E (ws_Path workspace) w2 of
                           (Some err, w3) \<Rightarrow>
                             (Some (Wrap err (''failed to remove workspace directory: ''
                                              @ ws_Path workspace)), w3)
                         | (None, w3) \<Rightarrow> remove_config E name w3)
                   else remove_config E name w1)
                else
                  (case cleanupWorkspaceSpecificFiles E (ws_Path workspace) w1 of
                     (Some err, w2) \<Rightarrow>
                       remove_config E name
                         (emit (LogWarn ''Failed to clean up workspace-specific files'') w2)
                   | (None, w2) \<Rightarrow> remove_config E name w2))))"

section \<open>AddRepository and RemoveRepository\<close>

definition AddRepositoryToWorkspace ::
  "env \<Rightarrow> WorkspaceManager \<Rightarrow> string \<Rightarrow> string \<Rightarrow> string \<Rightarrow> bool \<Rightarrow> world
     \<Rightarrow> error option \<times> world" where
  "AddRepositoryToWorkspace E wm workspaceName repoName branchName forceOverwrite w =
     (case LoadWorkspace E w workspaceName of
        Inl err \<Rightarrow> (Some (Wrap err (''failed to load workspace '' @ quoted workspaceName)), w)
      | Inr workspace \<Rightarrow>
          if list_ex (\<lambda>repo. Name repo = repoName) (Repositories workspace) then
            (Some (New (''repository '' @ quoted repoName @ '' is already in workspace ''
                        @ quoted workspaceName)), w)
          else
            (case FindRepositories wm [repoName] of
               Inl err \<Rightarrow> (Some (Wrap err (''failed to find repository '' @ quoted repoName)), w)
             | Inr [] \<Rightarrow>
                 (Some (New (''repository '' @ quoted repoName @ '' not found in registry'')), w)
             | Inr (repo # others) \<Rightarrow>
                 (let targetBranch = (if branchName = [] then Branch workspace else branchName) in
                  case CreateWorktreeForAdd E workspace repo targetBranch forceOverwrite w of
                    (Some err, w1) \<Rightarrow>
                      (Some (Wrap err (''failed to create worktree for repository ''
                                       @ quoted repoName)), w1)
                  | (None, w1) \<Rightarrow>
                      (let workspace' =
                             workspace\<lparr>Repositories := Repositories workspace @ [repo]\<rparr>;
                           w2 = (if GoWorkspace workspace' then
                                   (case CreateGoWorkspace E workspace' w1 of
                                      (Some err, w') \<Rightarrow>
                                        emit (LogWarn ''Failed to update go.work file, but continuing'') w'
                                    | (None, w') \<Rightarrow> w')
                                 else w1)
                       in case SaveWorkspace E wm workspace' w2 of
                            (Some err, w3) \<Rightarrow>
                              (Some (Wrap err ''failed to save updated workspace configuration''), w3)
                          | (None, w3) \<Rightarrow> (None, w3)))))"

text \<open>The search loop of \<^verbatim>\<open>RemoveRepositoryFromWorkspace\<close>: the first index with that name.\<close>

fun find_repo :: "string \<Rightarrow> Repository list \<Rightarrow> nat \<Rightarrow> (nat \<times> Repository) option" where
  "find_repo repoName [] i = None"
| "find_repo repoName (repo # repos) i =
     (if Name repo = repoName then Some (i, repo) else find_repo repoName repos (Suc i))"

definition RemoveRepositoryFromWorkspace ::
  "env \<Rightarrow> WorkspaceManager \<Rightarrow> string \<Rightarrow> string \<Rightarrow> bool \<Rightarrow> bool \<Rightarrow> world
     \<Rightarrow> error option \<times> world" where
  "RemoveRepositoryFromWorkspace E wm workspaceName repoName force removeFiles w =
     (case LoadWorkspace E w workspaceName of
        Inl err \<Rightarrow> (Some (Wrap err (''failed to load workspace '' @ quoted workspaceName)), w)
      | Inr workspace \<Rightarrow>
          (case find_repo repoName (Repositories workspace) 0 of
             None \<Rightarrow>
               (Some (New (''repository '' @ quoted repoName @ '' not found in workspace ''
                           @ quoted workspaceName)), w)
           | Some (repoIndex, targetRepo) \<Rightarrow>
               (let worktreePath = filepath_Join (ws_Path workspace) repoName in
                case removeWorktreeForRepo E targetRepo worktreePath force w of
                  (Some err, w1) \<Rightarrow>
                    (Some (Wrap err (''failed to remove worktree for repository ''
                                     @ quoted repoName)), w1)
                | (None, w1) \<Rightarrow>
                    (case (if removeFiles \<and> os_Stat E w1 worktreePath = StatOk
                           then os_RemoveAll E worktreePath w1 else (None, w1)) of
                       (Some err, w2) \<Rightarrow>
                         (Some (Wrap err (''failed to remove repository directory: ''
                                          @ worktreePath)), w2)
                     | (None, w2) \<Rightarrow>
                         (let workspace' =
                                workspace\<lparr>Repositories :=
                                  take repoIndex (Repositories workspace)
                                  @ drop (Suc repoIndex) (Repositories workspace)\<rparr>;
                              w3 = (if GoWorkspace workspace' then
                                      (case CreateGoWorkspace E workspace' w2 of
                                         (Some err, w') \<Rightarrow>
                                           emit (LogWarn ''Failed to update go.work file, but continuing'') w'
                                       | (None, w') \<Rightarrow> w')
                                    else w2)
                          in case SaveWorkspace E wm workspace' w3 of
                               (Some err, w4) \<Rightarrow>
                                 (Some (Wrap err ''failed to save updated workspace configuration''), w4)
                             | (None, w4) \<Rightarrow> (None, w4))))))"

section \<open>Branch resolver of the specification\<close>








definition local_exists :: "env \<Rightarrow> Repository \<Rightarrow> string \<Rightarrow> bool" where
  "local_exists E repo branch =
     (git_run E (Path repo)
        [''git'', ''show-ref'', ''--verify'', ''--quiet'', ''refs/heads/'' @ branch] = None)"

definition remote_exists :: "env \<Rightarrow> Repository \<Rightarrow> string \<Rightarrow> bool" where
  "remote_exists E repo branch =
     (git_run E (Path repo)
        [''git'', ''show-ref'', ''--verify'', ''--quiet'', ''refs/remotes/origin/'' @ branch] = None)"


section \<open>Status verdict of the specification\<close>

record RepositoryStatus =
  rs_Repository :: Repository
  rs_CurrentBranch :: string
  HasChanges :: bool
  StagedFiles :: "string list"
  ModifiedFiles :: "string list"
  UntrackedFiles :: "string list"
  Ahead :: int
  Behind :: int
  HasConflicts :: bool
  IsMerged :: bool
  NeedsRebase :: bool

text \<open>
  Modelled from the spec: the function that fills \<^verbatim>\<open>WorkspaceStatus.Overall\<close>
  (\<^verbatim>\<open>GetWorkspaceStatus\<close> in \<^verbatim>\<open>pkg/wsm/status.go\<close>) is missing from the source files at hand; only
  its callers are there. Section 4.5: the first match wins, any member \<^verbatim>\<open>HasConflicts\<close>
  gives \<^verbatim>\<open>conflict\<close>, any member \<^verbatim>\<open>HasChanges\<close> gives \<^verbatim>\<open>modified\<close>, otherwise \<^verbatim>\<open>clean\<close>.
\<close>

definition overall_status :: "RepositoryStatus list \<Rightarrow> string" where
  "overall_status repos =
     (if list_ex HasConflicts repos then ''conflict''
      else if list_ex HasChanges repos then ''modified''
      else ''clean'')"

text \<open>\<^verbatim>\<open>getStatusString\<close> of the status command, the verdict of one repository.\<close>

definition getStatusString :: "RepositoryStatus \<Rightarrow> string" where
  "getStatusString status =
     (if HasConflicts status then ''conflict''
      else if HasChanges status then ''modified''
      else ''clean'')"

section \<open>Vocabulary of the statements\<close>

definition empty_world :: world where
  "empty_world = \<lparr>fs = [], saved = Map.empty, trace = []\<rparr>"

text \<open>
  Whether the checkout of a repository during Create fails is decided by the environment
  alone (lemma \<open>createWorktree_outcome\<close> below), and so is whether the descriptor can be
  written and the agent file copied.
\<close>

definition worktree_outcome :: "env \<Rightarrow> Workspace \<Rightarrow> Repository \<Rightarrow> error option" where
  "worktree_outcome E workspace repo = fst (createWorktree E workspace repo empty_world)"

definition descriptor_outcome :: "env \<Rightarrow> Workspace \<Rightarrow> error option" where
  "descriptor_outcome E workspace =
     (if GoWorkspace workspace then fst (CreateGoWorkspace E workspace empty_world) else None)"

definition agent_outcome :: "env \<Rightarrow> Workspace \<Rightarrow> error option" where
  "agent_outcome E workspace =
     (if AgentMD workspace \<noteq> [] then fst (copyAgentMD E workspace empty_world) else None)"

definition worktree_info :: "Workspace \<Rightarrow> Repository \<Rightarrow> WorktreeInfo" where
  "worktree_info workspace repo =
     \<lparr>wt_Repository = repo,
      TargetPath = filepath_Join (ws_Path workspace) (Name repo),
      wt_Branch = Branch workspace\<rparr>"

text \<open>The worktrees a Create has made when it fails: those of the repositories before the first
  one whose checkout fails.\<close>

definition created_before_failure :: "env \<Rightarrow> Workspace \<Rightarrow> WorktreeInfo list" where
  "created_before_failure E workspace =
     map (worktree_info workspace)
       (takeWhile (\<lambda>repo. worktree_outcome E workspace repo = None) (Repositories workspace))"

text \<open>The workspace record that \<open>CreateWorkspace\<close> builds.\<close>

definition new_workspace ::
  "env \<Rightarrow> WorkspaceManager \<Rightarrow> string \<Rightarrow> Repository list \<Rightarrow> string \<Rightarrow> string \<Rightarrow> Workspace" where
  "new_workspace E wm name repos branch agentSource =
     \<lparr>ws_Name = name, ws_Path = filepath_Join (workspaceDir wm) name, Repositories = repos,
      Branch = branch, BaseBranch = [], Created = time_Now E,
      GoWorkspace = shouldCreateGoWorkspace repos, AgentMD = agentSource\<rparr>"

text \<open>The \<^verbatim>\<open>git worktree remove\<close> commands of a trace, and the forced one of the rollback.\<close>

fun is_removal :: "event \<Rightarrow> bool" where
  "is_removal (Exec dir args r) = (remove_target args \<noteq> None)"
| "is_removal (LogWarn msg) = False"

definition removals :: "event list \<Rightarrow> event list" where
  "removals evs = filter is_removal evs"


definition forced_removal :: "env \<Rightarrow> WorktreeInfo \<Rightarrow> event" where
  "forced_removal E worktree =
     (let args = [''git'', ''worktree'', ''remove'', ''--force'', TargetPath worktree]
      in Exec (Path (wt_Repository worktree)) args (git_run E (Path (wt_Repository worktree)) args))"

text \<open>What one step of the rollback leaves in the trace: the command, and a warning if it failed.\<close>

definition rollback_events :: "env \<Rightarrow> WorktreeInfo \<Rightarrow> event list" where
  "rollback_events E worktree =
     (let args = [''git'', ''worktree'', ''remove'', ''--force'', TargetPath worktree]
      in case git_run E (Path (wt_Repository worktree)) args of
           None \<Rightarrow> [forced_removal E worktree]
         | Some failure \<Rightarrow>
             [forced_removal E worktree, LogWarn ''Failed to remove worktree during rollback''])"

text \<open>The removal command of one member during Delete, and the error collected when it fails.\<close>

definition removal_args :: "Workspace \<Rightarrow> bool \<Rightarrow> Repository \<Rightarrow> string list" where
  "removal_args workspace force repo =
     (if force then [''git'', ''worktree'', ''remove'', ''--force'',
                     filepath_Join (ws_Path workspace) (Name repo)]
      else [''git'', ''worktree'', ''remove'', filepath_Join (ws_Path workspace) (Name repo)])"

definition removal_event :: "env \<Rightarrow> Workspace \<Rightarrow> bool \<Rightarrow> Repository \<Rightarrow> event" where
  "removal_event E workspace force repo =
     Exec (Path repo) (removal_args workspace force repo)
       (git_run E (Path repo) (removal_args workspace force repo))"

definition removal_error :: "env \<Rightarrow> Workspace \<Rightarrow> bool \<Rightarrow> Repository \<Rightarrow> error option" where
  "removal_error E workspace force repo =
     (case git_run E (Path repo) (removal_args workspace force repo) of
        None \<Rightarrow> None
      | Some (err, cmdOutput) \<Rightarrow>
          Some (Wrap (External err)
                  (''failed to remove worktree for '' @ Name repo @ '': '' @ cmdOutput)))"

definition missing_names :: "WorkspaceManager \<Rightarrow> string list \<Rightarrow> string list" where
  "missing_names wm repoNames = filter (\<lambda>n. n \<notin> Name ` set (Discoverer wm)) repoNames"

section \<open>A small registry and environment\<close>

text \<open>Two registered repositories and an environment in which every step succeeds; the
  concrete runs below vary it.\<close>

definition repoA :: Repository where
  "repoA = \<lparr>Name = ''a'', Path = ''/src/a'', RemoteURL = [], CurrentBranch = ''main'',
            Branches = [''main''], Categories = [''go''], LastCommit = [], LastUpdated = 0\<rparr>"

definition repoB :: Repository where
  "repoB = \<lparr>Name = ''b'', Path = ''/src/b'', RemoteURL = [], CurrentBranch = ''main'',
            Branches = [''main''], Categories = [], LastCommit = [], LastUpdated = 0\<rparr>"

definition wm0 :: WorkspaceManager where
  "wm0 = \<lparr>RegistryPath = ''/cfg/workspace-manager/registry.json'',
          Discoverer = [repoA, repoB], workspaceDir = ''/ws''\<rparr>"

definition env0 :: env where
  "env0 = \<lparr>git_run = (\<lambda>dir args. None), form_run = (\<lambda>n. Inr ''use''),
           scanln = (\<lambda>n. Some ''u''), stat_err = (\<lambda>p. None), mkdir_err = (\<lambda>p. None),
           readdir_err = (\<lambda>p. None), read_file = (\<lambda>p. Inr []), write_err = (\<lambda>p. None),
           remove_err = (\<lambda>p. None), remove_all_err = (\<lambda>p. None),
           home_dir = Inr ''/home/u'', config_dir = Inr ''/cfg'', time_Now = 0\<rparr>"

text \<open>The environment in which exactly the commands picked by \<open>fails\<close> fail.\<close>

definition env_fail :: "(string \<Rightarrow> string list \<Rightarrow> bool) \<Rightarrow> env" where
  "env_fail fails =
     env0\<lparr>git_run := (\<lambda>dir args. if fails dir args then Some (''exit status 128'', ''fatal'')
                                  else None)\<rparr>"

definition is_remove_cmd :: "string list \<Rightarrow> bool" where
  "is_remove_cmd args = (take 3 args = [''git'', ''worktree'', ''remove''])"

definition is_add_cmd :: "string list \<Rightarrow> bool" where
  "is_add_cmd args = (take 3 args = [''git'', ''worktree'', ''add''])"

definition status_of :: "bool \<Rightarrow> bool \<Rightarrow> int \<Rightarrow> RepositoryStatus" where
  "status_of conflicts changes ahead =
     \<lparr>rs_Repository = repoA, rs_CurrentBranch = ''main'', HasChanges = changes,
      StagedFiles = [], ModifiedFiles = [], UntrackedFiles = [], Ahead = ahead, Behind = 0,
      HasConflicts = conflicts, IsMerged = False, NeedsRebase = (ahead > 0)\<rparr>"

text \<open>A persisted workspace \<^verbatim>\<open>demo\<close> holding repository \<^verbatim>\<open>a\<close>, the world in which it
  exists, and an environment in which the descriptor \<^verbatim>\<open>go.work\<close> cannot be written.\<close>

definition demo_workspace :: Workspace where
  "demo_workspace = new_workspace env0 wm0 ''demo'' [repoA] [] []"

definition demo_world :: world where
  "demo_world = \<lparr>fs = [''/ws/demo'', ''/ws/demo/a''],
                  saved = [''demo'' \<mapsto> Good demo_workspace], trace = []\<rparr>"

definition env_no_descriptor :: env where
  "env_no_descriptor =
     env0\<lparr>write_err := (\<lambda>p. if p = ''/ws/demo/go.work'' then Some ''permission denied''
                             else None)\<rparr>"

text \<open>A persisted workspace \<^verbatim>\<open>demo\<close> holding repositories \<^verbatim>\<open>a\<close> and \<^verbatim>\<open>b\<close>, both checked out.\<close>

definition pair_workspace :: Workspace where
  "pair_workspace = new_workspace env0 wm0 ''demo'' [repoA, repoB] [] []"

definition pair_world :: world where
  "pair_world = \<lparr>fs = [''/ws/demo'', ''/ws/demo/a'', ''/ws/demo/b''],
                  saved = [''demo'' \<mapsto> Good pair_workspace], trace = []\<rparr>"

section \<open>Properties\<close>

subsection \<open>Resolving names\<close>

lemma find_loop_eq:
  "find_loop m names repos nf =
     (repos @ List.map_filter m names, nf @ filter (\<lambda>n. m n = None) names)"
  by (induction names arbitrary: repos nf) (auto split: option.splits)

lemma repoMap_None:
  "(foldl (\<lambda>m repo. m(Name repo \<mapsto> repo)) m0 rs) n = None \<longleftrightarrow> m0 n = None \<and> n \<notin> Name ` set rs"
  by (induction rs arbitrary: m0) auto

lemma repoMap_Some:
  "(foldl (\<lambda>m repo. m(Name repo \<mapsto> repo)) m0 rs) n = Some r \<Longrightarrow> m0 n = Some r \<or> (r \<in> set rs \<and> Name r = n)"
proof (induction rs arbitrary: m0)
  case Nil
  then show ?case by simp
next
  case (Cons a rs)
  from Cons.prems have "foldl (\<lambda>m repo. m(Name repo \<mapsto> repo)) (m0(Name a \<mapsto> a)) rs n = Some r"
    by (simp only: foldl_Cons)
  from Cons.IH[OF this] show ?case by (auto split: if_splits)
qed

lemma map_filter_names:
  assumes "\<forall>n\<in>set names. \<exists>r. m n = Some r \<and> Name r = n \<and> r \<in> R"
  shows "map Name (List.map_filter m names) = names \<and> set (List.map_filter m names) \<subseteq> R"
  using assms by (induction names) auto

lemma contains_mid: "strings_Contains (a @ b @ c) b"
proof (induction a)
  case Nil
  show ?case
  proof (cases "b @ c")
    case Nil
    then show ?thesis by simp
  next
    case (Cons x l)
    have "take (length b) (b @ c) = b" by simp
    then show ?thesis unfolding append_Nil Cons by simp
  qed
next
  case (Cons x a)
  then show ?case by simp
qed

lemma join_mid: "n \<in> set xs \<Longrightarrow> \<exists>a c. strings_Join xs sep = a @ n @ c"
proof (induction xs sep rule: strings_Join.induct)
  case (1 sep)
  then show ?case by simp
next
  case (2 x sep)
  then have "strings_Join [x] sep = [] @ n @ []" by simp
  then show ?case by blast
next
  case (3 x y ys sep)
  show ?case
  proof (cases "n = x")
    case True
    then have "strings_Join (x # y # ys) sep = [] @ n @ (sep @ strings_Join (y # ys) sep)" by simp
    then show ?thesis by blast
  next
    case False
    with 3 obtain a c where "strings_Join (y # ys) sep = a @ n @ c" by auto
    then have "strings_Join (x # y # ys) sep = (x @ sep @ a) @ n @ c" by simp
    then show ?thesis by blast
  qed
qed

lemma contains_join: "n \<in> set xs \<Longrightarrow> strings_Contains (pre @ strings_Join xs sep) n"
proof -
  assume "n \<in> set xs"
  then obtain a c where "strings_Join xs sep = a @ n @ c" using join_mid by blast
  then have "pre @ strings_Join xs sep = (pre @ a) @ n @ c" by simp
  then show ?thesis using contains_mid by metis
qed

lemma FindRepositories_missing:
  assumes "missing_names wm repoNames \<noteq> []"
  shows "FindRepositories wm repoNames =
           Inl (New (''repositories not found: '' @ strings_Join (missing_names wm repoNames) '', ''))"
  using assms
  by (simp add: FindRepositories_def find_loop_eq repoMap_None missing_names_def Let_def)

lemma FindRepositories_found:
  assumes "missing_names wm repoNames = []"
  shows "\<exists>repos. FindRepositories wm repoNames = Inr repos \<and> map Name repos = repoNames
            \<and> set repos \<subseteq> set (Discoverer wm)"
proof -
  let ?m = "foldl (\<lambda>m repo. m(Name repo \<mapsto> repo)) Map.empty (Discoverer wm)"
  have all: "\<forall>n\<in>set repoNames. n \<in> Name ` set (Discoverer wm)"
    using assms by (auto simp: missing_names_def filter_empty_conv)
  have "\<forall>n\<in>set repoNames. \<exists>r. ?m n = Some r \<and> Name r = n \<and> r \<in> set (Discoverer wm)"
  proof
    fix n assume "n \<in> set repoNames"
    with all have "?m n \<noteq> None" by (simp add: repoMap_None)
    then obtain r where r: "?m n = Some r" by auto
    from repoMap_Some[OF r] show "\<exists>r. ?m n = Some r \<and> Name r = n \<and> r \<in> set (Discoverer wm)"
      using r by auto
  qed
  from map_filter_names[OF this]
  show ?thesis using assms
    by (simp add: FindRepositories_def find_loop_eq repoMap_None missing_names_def Let_def)
qed

lemma FindRepositories_Inr:
  assumes "FindRepositories wm repoNames = Inr repos"
  shows "map Name repos = repoNames \<and> set repos \<subseteq> set (Discoverer wm)"
proof (cases "missing_names wm repoNames = []")
  case True
  from FindRepositories_found[OF True] assms show ?thesis by auto
next
  case False
  from FindRepositories_missing[OF False] assms show ?thesis by simp
qed

text \<open>
  Claim C7. Resolving the requested names reports every missing one at once: when at least
  one requested name is absent from the registry, \<open>FindRepositories\<close> fails with the message
  that joins all the absent names, in the order requested (each of them occurs in it), and
  \<open>CreateWorkspace\<close> with a non-empty name returns that error wrapped and leaves the world as
  it was: no worktree, nothing persisted. When every name resolves, the result lists registry
  records whose names are the requested names, in the requested order.
\<close>

theorem create_reports_all_missing:
  "(missing_names wm repoNames \<noteq> [] \<longrightarrow>
      FindRepositories wm repoNames =
        Inl (New (''repositories not found: '' @ strings_Join (missing_names wm repoNames) '', ''))
      \<and> (\<forall>n\<in>set (missing_names wm repoNames).
            strings_Contains
              (''repositories not found: '' @ strings_Join (missing_names wm repoNames) '', '') n)
      \<and> (name \<noteq> [] \<longrightarrow>
            CreateWorkspace E wm name repoNames branch agentSource dryRun w =
              (Inl (Wrap (New (''repositories not found: ''
                               @ strings_Join (missing_names wm repoNames) '', ''))
                      ''failed to find repositories''), w)))
   \<and> (missing_names wm repoNames = [] \<longrightarrow>
      (\<exists>repos. FindRepositories wm repoNames = Inr repos \<and> map Name repos = repoNames
          \<and> set repos \<subseteq> set (Discoverer wm)))"
proof (intro conjI impI)
  assume m: "missing_names wm repoNames \<noteq> []"
  show f: "FindRepositories wm repoNames =
        Inl (New (''repositories not found: '' @ strings_Join (missing_names wm repoNames) '', ''))"
    by (rule FindRepositories_missing[OF m])
  show "\<forall>n\<in>set (missing_names wm repoNames).
            strings_Contains
              (''repositories not found: '' @ strings_Join (missing_names wm repoNames) '', '') n"
    using contains_join by blast
  assume "name \<noteq> []"
  then show "CreateWorkspace E wm name repoNames branch agentSource dryRun w =
              (Inl (Wrap (New (''repositories not found: ''
                               @ strings_Join (missing_names wm repoNames) '', ''))
                      ''failed to find repositories''), w)"
    by (simp add: CreateWorkspace_def f)
next
  assume "missing_names wm repoNames = []"
  then show "\<exists>repos. FindRepositories wm repoNames = Inr repos \<and> map Name repos = repoNames
          \<and> set repos \<subseteq> set (Discoverer wm)"
    by (rule FindRepositories_found)
qed

theorem create_reports_all_missing_witness:
  "CreateWorkspace env0 wm0 ''demo'' [''a'', ''x'', ''y''] ''f'' [] False empty_world =
     (Inl (Wrap (New ''repositories not found: x, y'') ''failed to find repositories''),
      empty_world)
   \<and> strings_Contains ''repositories not found: x, y'' ''y''
   \<and> (\<exists>repos. FindRepositories wm0 [''b'', ''a''] = Inr repos \<and> map Name repos = [''b'', ''a''])"
proof -
  have m1: "missing_names wm0 [''a'', ''x'', ''y''] = [''x'', ''y'']"
    by (simp add: missing_names_def wm0_def repoA_def repoB_def)
  have m2: "missing_names wm0 [''b'', ''a''] = []"
    by (simp add: missing_names_def wm0_def repoA_def repoB_def)
  from create_reports_all_missing[of wm0 "[''a'', ''x'', ''y'']" "''demo''" env0 "''f''" "[]" False empty_world]
       create_reports_all_missing[of wm0 "[''b'', ''a'']" "''demo''" env0 "''f''" "[]" False empty_world]
  show ?thesis unfolding m1 m2 by auto
qed

text \<open>
  Claim C10. A dry run of Create has no effect: with a non-empty name and names that all
  resolve, \<open>CreateWorkspace\<close> with \<open>dryRun\<close> set returns a workspace with the requested name,
  the path joined from the base directory and the name, the resolved repositories in the
  requested order and the requested branch, and the world (file system, persisted records,
  trace of commands) is the one it started from.
\<close>

theorem dry_run_has_no_effect:
  assumes "name \<noteq> []" and "FindRepositories wm repoNames = Inr repos"
  shows "\<exists>workspace.
           CreateWorkspace E wm name repoNames branch agentSource True w = (Inr workspace, w)
           \<and> ws_Name workspace = name
           \<and> ws_Path workspace = filepath_Join (workspaceDir wm) name
           \<and> Repositories workspace = repos
           \<and> map Name (Repositories workspace) = repoNames
           \<and> Branch workspace = branch"
  using assms FindRepositories_Inr[OF assms(2)] by (simp add: CreateWorkspace_def)

theorem dry_run_has_no_effect_witness:
  "\<exists>workspace.
     CreateWorkspace env0 wm0 ''demo'' [''b'', ''a''] ''f'' [] True empty_world
       = (Inr workspace, empty_world)
     \<and> ws_Name workspace = ''demo'' \<and> ws_Path workspace = ''/ws/demo''
     \<and> Repositories workspace = [repoB, repoA] \<and> Branch workspace = ''f''"
proof -
  have f: "FindRepositories wm0 [''b'', ''a''] = Inr [repoB, repoA]"
    by (simp add: FindRepositories_def wm0_def repoA_def repoB_def)
  have w: "\<exists>workspace.
           CreateWorkspace env0 wm0 ''demo'' [''b'', ''a''] ''f'' [] True empty_world
             = (Inr workspace, empty_world)
           \<and> ws_Name workspace = ''demo''
           \<and> ws_Path workspace = filepath_Join (workspaceDir wm0) ''demo''
           \<and> Repositories workspace = [repoB, repoA]
           \<and> map Name (Repositories workspace) = [''b'', ''a'']
           \<and> Branch workspace = ''f''"
    by (rule dry_run_has_no_effect[OF _ f]) simp
  have "filepath_Join (workspaceDir wm0) ''demo'' = ''/ws/demo''"
    by (simp add: filepath_Join_def wm0_def)
  with w show ?thesis by auto
qed

subsection \<open>Commands, rollback and teardown\<close>

lemma run_cmd_fst [simp]: "fst (run_cmd E d a w) = git_run E d a"
  by (simp add: run_cmd_def Let_def split: option.splits)

lemma run_cmd_trace [simp]:
  "trace (snd (run_cmd E d a w)) = trace w @ [Exec d a (git_run E d a)]"
  by (simp add: run_cmd_def Let_def emit_def fs_add_def fs_remove_tree_def split: option.splits)

lemma run_cmd_saved [simp]: "saved (snd (run_cmd E d a w)) = saved w"
  by (simp add: run_cmd_def Let_def emit_def fs_add_def fs_remove_tree_def split: option.splits)

lemma remove_target_forced [simp]:
  "remove_target [''git'', ''worktree'', ''remove'', ''--force'', t] = Some t"
  by (simp add: remove_target_def)

lemma remove_target_plain [simp]:
  "remove_target [''git'', ''worktree'', ''remove'', t] = Some t"
  by (simp add: remove_target_def)

lemma add_target_remove [simp]:
  "add_target (''git'' # ''worktree'' # ''remove'' # rest) = None"
  by (simp add: add_target_def)

lemma run_cmd_forced_fs:
  "fs (snd (run_cmd E d [''git'', ''worktree'', ''remove'', ''--force'', t] w)) =
     (if git_run E d [''git'', ''worktree'', ''remove'', ''--force'', t] = None
      then filter (\<lambda>q. \<not> (q = t \<or> below t q)) (fs w) else fs w)"
  by (simp add: run_cmd_def Let_def emit_def fs_remove_tree_def split: option.splits)

lemma fs_exists_mono: "set (fs w') \<subseteq> set (fs w) \<Longrightarrow> fs_exists w' p \<Longrightarrow> fs_exists w p"
  by (auto simp: fs_exists_def list_ex_iff)

lemma rollback_step:
  "\<exists>w'. rollback_loop E worktrees (Suc n) w = rollback_loop E worktrees n w'
      \<and> trace w' = trace w @ rollback_events E (worktrees ! n)
      \<and> saved w' = saved w
      \<and> set (fs w') \<subseteq> set (fs w)
      \<and> (git_run E (Path (wt_Repository (worktrees ! n)))
            [''git'', ''worktree'', ''remove'', ''--force'', TargetPath (worktrees ! n)] = None
          \<longrightarrow> \<not> fs_exists w' (TargetPath (worktrees ! n)))"
proof -
  let ?args = "[''git'', ''worktree'', ''remove'', ''--force'', TargetPath (worktrees ! n)]"
  let ?d = "Path (wt_Repository (worktrees ! n))"
  let ?r = "run_cmd E ?d ?args w"
  show ?thesis
  proof (cases "git_run E ?d ?args")
    case None
    have 1: "rollback_loop E worktrees (Suc n) w = rollback_loop E worktrees n (snd ?r)"
      using None by (simp add: Let_def case_prod_beta)
    have 2: "trace (snd ?r) = trace w @ rollback_events E (worktrees ! n)"
      using None by (simp add: rollback_events_def forced_removal_def Let_def)
    have 3: "set (fs (snd ?r)) \<subseteq> set (fs w)"
      by (auto simp: run_cmd_forced_fs)
    have 4: "\<not> fs_exists (snd ?r) (TargetPath (worktrees ! n))"
      using None by (auto simp: fs_exists_def list_ex_iff run_cmd_forced_fs)
    from 1 2 3 4 show ?thesis by (intro exI[of _ "snd ?r"]) simp
  next
    case (Some f)
    let ?w = "emit (LogWarn ''Failed to remove worktree during rollback'') (snd ?r)"
    have 1: "rollback_loop E worktrees (Suc n) w = rollback_loop E worktrees n ?w"
      using Some by (simp add: Let_def case_prod_beta)
    have 2: "trace ?w = trace w @ rollback_events E (worktrees ! n)"
      using Some by (simp add: rollback_events_def forced_removal_def Let_def emit_def)
    have 3: "set (fs ?w) \<subseteq> set (fs w)"
      by (auto simp: run_cmd_forced_fs emit_def)
    have 4: "saved ?w = saved w" by (simp add: emit_def)
    from 1 2 3 4 Some show ?thesis by (intro exI[of _ ?w]) simp
  qed
qed

lemma rollback_loop_props:
  "n \<le> length worktrees \<Longrightarrow>
   trace (rollback_loop E worktrees n w) =
     trace w @ concat (map (rollback_events E) (rev (take n worktrees)))
   \<and> saved (rollback_loop E worktrees n w) = saved w
   \<and> set (fs (rollback_loop E worktrees n w)) \<subseteq> set (fs w)
   \<and> (\<forall>i<n. git_run E (Path (wt_Repository (worktrees ! i)))
            [''git'', ''worktree'', ''remove'', ''--force'', TargetPath (worktrees ! i)] = None
          \<longrightarrow> \<not> fs_exists (rollback_loop E worktrees n w) (TargetPath (worktrees ! i)))"
proof (induction n arbitrary: w)
  case 0
  then show ?case by simp
next
  case (Suc n)
  then have n: "n < length worktrees" by simp
  have t: "rev (take (Suc n) worktrees) = worktrees ! n # rev (take n worktrees)"
    by (simp add: take_Suc_conv_app_nth[OF n])
  from rollback_step[of E worktrees n w] obtain w' where
    w': "rollback_loop E worktrees (Suc n) w = rollback_loop E worktrees n w'"
      "trace w' = trace w @ rollback_events E (worktrees ! n)"
      "saved w' = saved w" "set (fs w') \<subseteq> set (fs w)"
      "git_run E (Path (wt_Repository (worktrees ! n)))
            [''git'', ''worktree'', ''remove'', ''--force'', TargetPath (worktrees ! n)] = None
          \<longrightarrow> \<not> fs_exists w' (TargetPath (worktrees ! n))"
    by (elim exE conjE) (rule that; assumption)
  from Suc.IH[of w'] n have IH:
    "trace (rollback_loop E worktrees n w') =
       trace w' @ concat (map (rollback_events E) (rev (take n worktrees)))"
    "saved (rollback_loop E worktrees n w') = saved w'"
    "set (fs (rollback_loop E worktrees n w')) \<subseteq> set (fs w')"
    "\<forall>i<n. git_run E (Path (wt_Repository (worktrees ! i)))
            [''git'', ''worktree'', ''remove'', ''--force'', TargetPath (worktrees ! i)] = None
          \<longrightarrow> \<not> fs_exists (rollback_loop E worktrees n w') (TargetPath (worktrees ! i))"
    by simp_all
  have last: "git_run E (Path (wt_Repository (worktrees ! n)))
            [''git'', ''worktree'', ''remove'', ''--force'', TargetPath (worktrees ! n)] = None
          \<longrightarrow> \<not> fs_exists (rollback_loop E worktrees n w') (TargetPath (worktrees ! n))"
    using w'(5) IH(3) fs_exists_mono by blast
  have all: "\<forall>i<Suc n. git_run E (Path (wt_Repository (worktrees ! i)))
            [''git'', ''worktree'', ''remove'', ''--force'', TargetPath (worktrees ! i)] = None
          \<longrightarrow> \<not> fs_exists (rollback_loop E worktrees n w') (TargetPath (worktrees ! i))"
    using IH(4) last less_Suc_eq by auto
  show ?case unfolding w'(1) using IH(1,2,3) w'(2,3,4) all by (simp add: t)
qed

lemma rollbackWorktrees_props:
  "trace (rollbackWorktrees E worktrees w) =
     trace w @ concat (map (rollback_events E) (rev worktrees))
   \<and> saved (rollbackWorktrees E worktrees w) = saved w
   \<and> set (fs (rollbackWorktrees E worktrees w)) \<subseteq> set (fs w)
   \<and> (\<forall>wt\<in>set worktrees. git_run E (Path (wt_Repository wt))
            [''git'', ''worktree'', ''remove'', ''--force'', TargetPath wt] = None
          \<longrightarrow> \<not> fs_exists (rollbackWorktrees E worktrees w) (TargetPath wt))"
proof (cases "worktrees = []")
  case True
  then show ?thesis by (simp add: rollbackWorktrees_def)
next
  case False
  then have eq: "rollbackWorktrees E worktrees w = rollback_loop E worktrees (length worktrees) w"
    by (simp add: rollbackWorktrees_def)
  from rollback_loop_props[of "length worktrees" worktrees E w]
  show ?thesis unfolding eq by (auto simp: in_set_conv_nth)
qed

lemma removals_rollback_events:
  "removals (concat (map (rollback_events E) wts)) = map (forced_removal E) wts"
  by (induction wts)
     (auto simp: removals_def rollback_events_def forced_removal_def Let_def split: option.splits)

text \<open>
  Claim C3. The rollback unwinds in strict reverse order of recording and is best-effort:
  for every list of recorded worktrees, what \<open>rollbackWorktrees\<close> adds to the trace is, for
  the last recorded worktree first and the first one last, the forced removal command of that
  worktree, followed by a logged warning when that command failed; so every recorded worktree
  gets its forced removal whatever happened to the others, and the removal commands are the
  forced removals of the reversed list.
\<close>

theorem rollback_reverse_best_effort:
  "trace (rollbackWorktrees E worktrees w) =
     trace w @ concat (map (rollback_events E) (rev worktrees))
   \<and> removals (concat (map (rollback_events E) (rev worktrees)))
       = map (forced_removal E) (rev worktrees)"
proof
  show "trace (rollbackWorktrees E worktrees w) =
     trace w @ concat (map (rollback_events E) (rev worktrees))"
    using rollbackWorktrees_props[of E worktrees w] by simp
  show "removals (concat (map (rollback_events E) (rev worktrees)))
       = map (forced_removal E) (rev worktrees)"
    by (rule removals_rollback_events)
qed

text \<open>
  Claim C5. Teardown is idempotent on absent paths: when the target path does not exist,
  \<open>removeWorktreeForRepo\<close> returns success and leaves the world as it was (so no external
  command is run), a second call on the result does the same, and the removal loop of Delete
  skips such a member without running a command for it.
\<close>

theorem teardown_absent_is_noop:
  assumes "os_Stat E w worktreePath = StatNotExist"
  shows "removeWorktreeForRepo E repo worktreePath force w = (None, w)
       \<and> removeWorktreeForRepo E repo worktreePath force
            (snd (removeWorktreeForRepo E repo worktreePath force w)) = (None, w)
       \<and> (filepath_Join (ws_Path workspace) (Name repo) = worktreePath \<longrightarrow>
            removeWorktrees_loop E workspace force (repo # repos) errs w
              = removeWorktrees_loop E workspace force repos errs w)"
  using assms by (simp add: removeWorktreeForRepo_def)

text \<open>
  Claim C8. The overall verdict of a workspace status is \<open>conflict\<close> if any member has
  \<open>HasConflicts\<close>, otherwise \<open>modified\<close> if any member has \<open>HasChanges\<close>, otherwise
  \<open>clean\<close>; two status lists that agree on these two flags, member by member, get the same
  verdict, whatever their ahead and behind counts and their merged and rebase flags are; and
  for a single member the verdict is the status string that the status command prints for it.
\<close>

theorem status_verdict_priority:
  "overall_status repos =
     (if \<exists>r\<in>set repos. HasConflicts r then ''conflict''
      else if \<exists>r\<in>set repos. HasChanges r then ''modified''
      else ''clean'')
   \<and> (map HasConflicts repos = map HasConflicts repos' \<and> map HasChanges repos = map HasChanges repos'
        \<longrightarrow> overall_status repos = overall_status repos')
   \<and> overall_status [status] = getStatusString status"
proof -
  have ex: "\<And>f rs. list_ex f rs \<longleftrightarrow> True \<in> set (map f rs)"
    by (auto simp: list_ex_iff)
  show ?thesis
    by (simp add: overall_status_def getStatusString_def ex)
qed

theorem rollback_reverse_best_effort_witness:
  "trace (rollbackWorktrees (env_fail (\<lambda>dir args. dir = ''/src/b'' \<and> is_remove_cmd args))
            [worktree_info (new_workspace env0 wm0 ''demo'' [repoA, repoB] [] []) repoA,
             worktree_info (new_workspace env0 wm0 ''demo'' [repoA, repoB] [] []) repoB]
            empty_world)
   = [Exec ''/src/b'' [''git'', ''worktree'', ''remove'', ''--force'', ''/ws/demo/b'']
        (Some (''exit status 128'', ''fatal'')),
      LogWarn ''Failed to remove worktree during rollback'',
      Exec ''/src/a'' [''git'', ''worktree'', ''remove'', ''--force'', ''/ws/demo/a''] None]"
  using rollback_reverse_best_effort[of
      "env_fail (\<lambda>dir args. dir = ''/src/b'' \<and> is_remove_cmd args)"
      "[worktree_info (new_workspace env0 wm0 ''demo'' [repoA, repoB] [] []) repoA,
        worktree_info (new_workspace env0 wm0 ''demo'' [repoA, repoB] [] []) repoB]"
      empty_world]
  by (simp add: rollback_events_def forced_removal_def env_fail_def env0_def is_remove_cmd_def
        worktree_info_def new_workspace_def wm0_def repoA_def repoB_def filepath_Join_def
        empty_world_def Let_def)

theorem teardown_absent_is_noop_witness:
  "os_Stat env0 empty_world ''/ws/demo/a'' = StatNotExist
   \<and> removeWorktreeForRepo env0 repoA ''/ws/demo/a'' False empty_world = (None, empty_world)
   \<and> removeWorktreeForRepo env0 repoA ''/ws/demo/a'' False
        (snd (removeWorktreeForRepo env0 repoA ''/ws/demo/a'' False empty_world))
       = (None, empty_world)"
proof -
  have s: "os_Stat env0 empty_world ''/ws/demo/a'' = StatNotExist"
    by (simp add: os_Stat_def env0_def fs_exists_def empty_world_def)
  from teardown_absent_is_noop[OF s] s show ?thesis by simp
qed

theorem status_verdict_priority_witness:
  "overall_status [status_of True False 0, status_of False False 0] = ''conflict''
   \<and> overall_status [status_of False True 0, status_of False False 0] = ''modified''
   \<and> overall_status [status_of False False 3, status_of False False 0] = ''clean''
   \<and> overall_status [status_of False False 3] = overall_status [status_of False False 0]"
proof -
  let ?s = "status_of False False 0"
  have 1: "overall_status [status_of True False 0, ?s] = ''conflict''"
    using status_verdict_priority[of "[status_of True False 0, ?s]" "[]" ?s]
    by (simp add: status_of_def)
  have 2: "overall_status [status_of False True 0, ?s] = ''modified''"
    using status_verdict_priority[of "[status_of False True 0, ?s]" "[]" ?s]
    by (simp add: status_of_def)
  have 3: "overall_status [status_of False False 3, ?s] = ''clean''"
    using status_verdict_priority[of "[status_of False False 3, ?s]" "[]" ?s]
    by (simp add: status_of_def)
  have 4: "overall_status [status_of False False 3] = overall_status [?s]"
    using status_verdict_priority[of "[status_of False False 3]" "[?s]" ?s]
    by (simp add: status_of_def getStatusString_def)
  from 1 2 3 4 show ?thesis by simp
qed

subsection \<open>Branch resolution\<close>


lemma CheckBranchExists_fst:
  "fst (CheckBranchExists E (Path repo) branch w) = local_exists E repo branch"
  by (simp add: CheckBranchExists_def local_exists_def case_prod_beta run_cmd_def Let_def
      split: option.splits)

lemma CheckRemoteBranchExists_fst:
  "fst (CheckRemoteBranchExists E (Path repo) branch w) = remote_exists E repo branch"
  by (simp add: CheckRemoteBranchExists_def remote_exists_def case_prod_beta run_cmd_def Let_def
      split: option.splits)





subsection \<open>Path conflicts and the descriptor\<close>

lemma CreateWorktreeForAdd_path_conflict:
  "os_Stat E w (filepath_Join (ws_Path workspace) (Name repo)) = StatOk \<Longrightarrow>
   CreateWorktreeForAdd E workspace repo branch forceOverwrite w =
     (Some (New (''target path '' @ quoted (filepath_Join (ws_Path workspace) (Name repo))
                 @ '' already exists'')), w)"
  by (simp add: CreateWorktreeForAdd_def)

text \<open>
  Claim C6. Materializing a repository whose target path already exists should fail with a
  path conflict before any external checkout command runs, during Create and during
  AddRepository alike. \<open>CreateWorktreeForAdd\<close> does so (lemma above). \<open>createWorktree\<close> has no such
  check: on a world where \<^verbatim>\<open>/ws/demo/a\<close> exists it still runs \<^verbatim>\<open>git worktree add /ws/demo/a\<close>
  and, when that command succeeds, reports success, where \<open>CreateWorktreeForAdd\<close> on the same
  world fails with the path conflict and runs nothing.
\<close>

theorem create_path_conflict_unchecked:
  "os_Stat env0 \<lparr>fs = [''/ws/demo'', ''/ws/demo/a''], saved = Map.empty, trace = []\<rparr> ''/ws/demo/a''
     = StatOk
   \<and> createWorktree env0 (new_workspace env0 wm0 ''demo'' [repoA] [] []) repoA
       \<lparr>fs = [''/ws/demo'', ''/ws/demo/a''], saved = Map.empty, trace = []\<rparr>
     = (None,
        \<lparr>fs = [''/ws/demo'', ''/ws/demo/a''], saved = Map.empty,
         trace = [Exec ''/src/a'' [''git'', ''worktree'', ''add'', ''/ws/demo/a''] None]\<rparr>)
   \<and> CreateWorktreeForAdd env0 (new_workspace env0 wm0 ''demo'' [repoA] [] []) repoA [] False
       \<lparr>fs = [''/ws/demo'', ''/ws/demo/a''], saved = Map.empty, trace = []\<rparr>
     = (Some (New (''target path '' @ quoted ''/ws/demo/a'' @ '' already exists'')),
        \<lparr>fs = [''/ws/demo'', ''/ws/demo/a''], saved = Map.empty, trace = []\<rparr>)"
  by (simp add: os_Stat_def fs_exists_def below_def createWorktree_def CreateWorktreeForAdd_def
        ExecuteWorktreeCommand_def run_cmd_def emit_def fs_add_def add_target_def
        new_workspace_def wm0_def repoA_def env0_def filepath_Join_def Let_def)

lemma CreateGoWorkspace_fail:
  "fst (CreateGoWorkspace E workspace w) \<noteq> None \<Longrightarrow> snd (CreateGoWorkspace E workspace w) = w"
  by (simp add: CreateGoWorkspace_def os_WriteFile_def Let_def split: option.splits)

lemma SaveWorkspace_ok:
  "fst (SaveWorkspace E wm workspace w) = None \<Longrightarrow>
   saved (snd (SaveWorkspace E wm workspace w)) (ws_Name workspace) = Some (Good workspace)
   \<and> trace (snd (SaveWorkspace E wm workspace w)) = trace w"
  by (simp add: SaveWorkspace_def os_MkdirAll_def fs_add_def Let_def split: option.splits)

text \<open>
  Claim C9. Regenerating the descriptor after AddRepository and after RemoveRepository is
  best-effort: when the workspace loads, the worktree operation succeeds (for a removal, also
  the optional deletion of the directory), the workspace keeps a descriptor and writing it
  fails, then, provided the record itself can be saved, the call succeeds, the persisted record
  holds the updated repository list (the repository appended, respectively taken out), and
  the only thing the descriptor failure leaves behind is one logged warning.
\<close>

theorem descriptor_failure_is_only_warned:
  "(LoadWorkspace E w workspaceName = Inr workspace
    \<and> \<not> list_ex (\<lambda>r. Name r = repoName) (Repositories workspace)
    \<and> FindRepositories wm [repoName] = Inr (repo # others)
    \<and> CreateWorktreeForAdd E workspace repo
          (if branchName = [] then Branch workspace else branchName) forceOverwrite w = (None, w1)
    \<and> GoWorkspace workspace
    \<and> fst (CreateGoWorkspace E (workspace\<lparr>Repositories := Repositories workspace @ [repo]\<rparr>) w1)
         \<noteq> None
    \<and> fst (SaveWorkspace E wm (workspace\<lparr>Repositories := Repositories workspace @ [repo]\<rparr>)
              (emit (LogWarn ''Failed to update go.work file, but continuing'') w1)) = None
    \<longrightarrow>
      fst (AddRepositoryToWorkspace E wm workspaceName repoName branchName forceOverwrite w) = None
      \<and> saved (snd (AddRepositoryToWorkspace E wm workspaceName repoName branchName forceOverwrite w))
            (ws_Name workspace)
          = Some (Good (workspace\<lparr>Repositories := Repositories workspace @ [repo]\<rparr>))
      \<and> trace (snd (AddRepositoryToWorkspace E wm workspaceName repoName branchName forceOverwrite w))
          = trace w1 @ [LogWarn ''Failed to update go.work file, but continuing''])
   \<and>
   (LoadWorkspace E w workspaceName = Inr workspace
    \<and> find_repo repoName (Repositories workspace) 0 = Some (repoIndex, targetRepo)
    \<and> removeWorktreeForRepo E targetRepo (filepath_Join (ws_Path workspace) repoName) force w
         = (None, w1)
    \<and> (if removeFiles \<and> os_Stat E w1 (filepath_Join (ws_Path workspace) repoName) = StatOk
        then os_RemoveAll E (filepath_Join (ws_Path workspace) repoName) w1 else (None, w1))
         = (None, w2)
    \<and> GoWorkspace workspace
    \<and> fst (CreateGoWorkspace E
              (workspace\<lparr>Repositories := take repoIndex (Repositories workspace)
                                           @ drop (Suc repoIndex) (Repositories workspace)\<rparr>) w2)
         \<noteq> None
    \<and> fst (SaveWorkspace E wm
              (workspace\<lparr>Repositories := take repoIndex (Repositories workspace)
                                           @ drop (Suc repoIndex) (Repositories workspace)\<rparr>)
              (emit (LogWarn ''Failed to update go.work file, but continuing'') w2)) = None
    \<longrightarrow>
      fst (RemoveRepositoryFromWorkspace E wm workspaceName repoName force removeFiles w) = None
      \<and> saved (snd (RemoveRepositoryFromWorkspace E wm workspaceName repoName force removeFiles w))
            (ws_Name workspace)
          = Some (Good (workspace\<lparr>Repositories := take repoIndex (Repositories workspace)
                                           @ drop (Suc repoIndex) (Repositories workspace)\<rparr>))
      \<and> trace (snd (RemoveRepositoryFromWorkspace E wm workspaceName repoName force removeFiles w))
          = trace w2 @ [LogWarn ''Failed to update go.work file, but continuing''])"
proof (intro conjI impI)
  let ?ws = "workspace\<lparr>Repositories := Repositories workspace @ [repo]\<rparr>"
  let ?warn = "LogWarn ''Failed to update go.work file, but continuing''"
  let ?call = "AddRepositoryToWorkspace E wm workspaceName repoName branchName forceOverwrite w"
  assume h: "LoadWorkspace E w workspaceName = Inr workspace
    \<and> \<not> list_ex (\<lambda>r. Name r = repoName) (Repositories workspace)
    \<and> FindRepositories wm [repoName] = Inr (repo # others)
    \<and> CreateWorktreeForAdd E workspace repo
          (if branchName = [] then Branch workspace else branchName) forceOverwrite w = (None, w1)
    \<and> GoWorkspace workspace
    \<and> fst (CreateGoWorkspace E ?ws w1) \<noteq> None
    \<and> fst (SaveWorkspace E wm ?ws (emit ?warn w1)) = None"
  then have g: "snd (CreateGoWorkspace E ?ws w1) = w1" using CreateGoWorkspace_fail by blast
  from h obtain e where e: "fst (CreateGoWorkspace E ?ws w1) = Some e" by auto
  have eq: "?call = (None, snd (SaveWorkspace E wm ?ws (emit ?warn w1)))"
    using h g e by (simp add: AddRepositoryToWorkspace_def Let_def case_prod_beta)
  from h have s: "fst (SaveWorkspace E wm ?ws (emit ?warn w1)) = None" by simp
  show "fst ?call = None" by (simp add: eq)
  show "saved (snd ?call) (ws_Name workspace) = Some (Good ?ws)"
    using SaveWorkspace_ok[OF s] by (simp add: eq)
  show "trace (snd ?call) = trace w1 @ [?warn]"
    using SaveWorkspace_ok[OF s] by (simp add: eq emit_def)
next
  let ?ws = "workspace\<lparr>Repositories := take repoIndex (Repositories workspace)
                                           @ drop (Suc repoIndex) (Repositories workspace)\<rparr>"
  let ?warn = "LogWarn ''Failed to update go.work file, but continuing''"
  let ?call = "RemoveRepositoryFromWorkspace E wm workspaceName repoName force removeFiles w"
  assume h: "LoadWorkspace E w workspaceName = Inr workspace
    \<and> find_repo repoName (Repositories workspace) 0 = Some (repoIndex, targetRepo)
    \<and> removeWorktreeForRepo E targetRepo (filepath_Join (ws_Path workspace) repoName) force w
         = (None, w1)
    \<and> (if removeFiles \<and> os_Stat E w1 (filepath_Join (ws_Path workspace) repoName) = StatOk
        then os_RemoveAll E (filepath_Join (ws_Path workspace) repoName) w1 else (None, w1))
         = (None, w2)
    \<and> GoWorkspace workspace
    \<and> fst (CreateGoWorkspace E ?ws w2) \<noteq> None
    \<and> fst (SaveWorkspace E wm ?ws (emit ?warn w2)) = None"
  then have g: "snd (CreateGoWorkspace E ?ws w2) = w2" using CreateGoWorkspace_fail by blast
  from h obtain e where e: "fst (CreateGoWorkspace E ?ws w2) = Some e" by auto
  from h have s: "fst (SaveWorkspace E wm ?ws (emit ?warn w2)) = None" by simp
  have cg: "CreateGoWorkspace E ?ws w2 = (Some e, w2)"
    using g e by (simp add: prod_eq_iff)
  have eq: "?call = (None, snd (SaveWorkspace E wm ?ws (emit ?warn w2)))"
  proof (cases "removeFiles \<and> os_Stat E w1 (filepath_Join (ws_Path workspace) repoName) = StatOk")
    case True
    with h have "os_RemoveAll E (filepath_Join (ws_Path workspace) repoName) w1 = (None, w2)"
      by simp
    with True h cg s show ?thesis
      by (simp add: RemoveRepositoryFromWorkspace_def Let_def case_prod_beta)
  next
    case False
    with h have "w2 = w1" by auto
    with False h cg s show ?thesis
      by (auto simp add: RemoveRepositoryFromWorkspace_def Let_def case_prod_beta)
  qed
  show "fst ?call = None" by (simp add: eq)
  show "saved (snd ?call) (ws_Name workspace) = Some (Good ?ws)"
    using SaveWorkspace_ok[OF s] by (simp add: eq)
  show "trace (snd ?call) = trace w2 @ [?warn]"
    using SaveWorkspace_ok[OF s] by (simp add: eq emit_def)
qed

theorem descriptor_failure_is_only_warned_witness:
  "fst (AddRepositoryToWorkspace env_no_descriptor wm0 ''demo'' ''b'' [] False demo_world) = None
   \<and> saved (snd (AddRepositoryToWorkspace env_no_descriptor wm0 ''demo'' ''b'' [] False demo_world))
        ''demo''
      = Some (Good (demo_workspace\<lparr>Repositories := [repoA, repoB]\<rparr>))
   \<and> fst (RemoveRepositoryFromWorkspace env_no_descriptor wm0 ''demo'' ''a'' False False demo_world)
      = None
   \<and> saved (snd (RemoveRepositoryFromWorkspace env_no_descriptor wm0 ''demo'' ''a'' False False
                    demo_world)) ''demo''
      = Some (Good (demo_workspace\<lparr>Repositories := []\<rparr>))"
proof -
  let ?E = env_no_descriptor
  let ?w1 = "\<lparr>fs = [''/ws/demo/b'', ''/ws/demo'', ''/ws/demo/a''],
             saved = [''demo'' \<mapsto> Good demo_workspace],
             trace = [Exec ''/src/b'' [''git'', ''worktree'', ''add'', ''/ws/demo/b''] None]\<rparr>"
  let ?w2 = "\<lparr>fs = [''/ws/demo''],
             saved = [''demo'' \<mapsto> Good demo_workspace],
             trace = [Exec ''/src/a'' [''git'', ''worktree'', ''list''] None,
                      Exec ''/src/a'' [''git'', ''worktree'', ''remove'', ''/ws/demo/a''] None,
                      Exec ''/src/a'' [''git'', ''worktree'', ''list''] None]\<rparr>"
  have name: "ws_Name demo_workspace = ''demo''" "ws_Path demo_workspace = ''/ws/demo''"
    "GoWorkspace demo_workspace" "Repositories demo_workspace = [repoA]"
    "Branch demo_workspace = []"
    by (simp_all add: demo_workspace_def new_workspace_def wm0_def filepath_Join_def repoA_def)
  have cfg: "filepath_Join (filepath_Join (filepath_Dir (RegistryPath wm0)) ''workspaces'')
               ''demo.json'' = ''/cfg/workspace-manager/workspaces/demo.json''"
    by (simp add: filepath_Join_def filepath_Dir_def wm0_def)
  have load: "LoadWorkspace ?E demo_world ''demo'' = Inr demo_workspace"
    by (simp add: LoadWorkspace_def env_no_descriptor_def env0_def demo_world_def)
  have nomem: "\<not> list_ex (\<lambda>r. Name r = ''b'') (Repositories demo_workspace)"
    by (simp add: name repoA_def)
  have find: "FindRepositories wm0 [''b''] = Inr (repoB # [])"
    by (simp add: FindRepositories_def wm0_def repoA_def repoB_def)
  have add: "CreateWorktreeForAdd ?E demo_workspace repoB
               (if [] = [] then Branch demo_workspace else []) False demo_world = (None, ?w1)"
    by (simp add: CreateWorktreeForAdd_def name os_Stat_def fs_exists_def below_def
          ExecuteWorktreeCommand_def run_cmd_def emit_def fs_add_def add_target_def
          env_no_descriptor_def env0_def demo_world_def repoB_def filepath_Join_def Let_def)
  have go1: "fst (CreateGoWorkspace ?E
                   (demo_workspace\<lparr>Repositories := Repositories demo_workspace @ [repoB]\<rparr>) ?w1)
             \<noteq> None"
    by (simp add: CreateGoWorkspace_def os_WriteFile_def name env_no_descriptor_def env0_def
          filepath_Join_def Let_def)
  have save1: "fst (SaveWorkspace ?E wm0
                     (demo_workspace\<lparr>Repositories := Repositories demo_workspace @ [repoB]\<rparr>)
                     (emit (LogWarn ''Failed to update go.work file, but continuing'') ?w1)) = None"
    by (simp add: SaveWorkspace_def os_MkdirAll_def name cfg env_no_descriptor_def env0_def Let_def)
  have find2: "find_repo ''a'' (Repositories demo_workspace) 0 = Some (0, repoA)"
    by (simp add: name repoA_def)
  have rm: "removeWorktreeForRepo ?E repoA (filepath_Join (ws_Path demo_workspace) ''a'') False
              demo_world = (None, ?w2)"
    by (simp add: removeWorktreeForRepo_def name os_Stat_def fs_exists_def below_def
          run_cmd_def emit_def fs_remove_tree_def add_target_def remove_target_def
          env_no_descriptor_def env0_def demo_world_def repoA_def filepath_Join_def Let_def)
  have rf: "(if False \<and> os_Stat ?E ?w2 (filepath_Join (ws_Path demo_workspace) ''a'') = StatOk
        then os_RemoveAll ?E (filepath_Join (ws_Path demo_workspace) ''a'') ?w2 else (None, ?w2))
         = (None, ?w2)"
    by simp
  have go2: "fst (CreateGoWorkspace ?E
              (demo_workspace\<lparr>Repositories := take 0 (Repositories demo_workspace)
                                           @ drop (Suc 0) (Repositories demo_workspace)\<rparr>) ?w2)
         \<noteq> None"
    by (simp add: CreateGoWorkspace_def os_WriteFile_def name env_no_descriptor_def env0_def
          filepath_Join_def Let_def)
  have save2: "fst (SaveWorkspace ?E wm0
              (demo_workspace\<lparr>Repositories := take 0 (Repositories demo_workspace)
                                           @ drop (Suc 0) (Repositories demo_workspace)\<rparr>)
              (emit (LogWarn ''Failed to update go.work file, but continuing'') ?w2)) = None"
    by (simp add: SaveWorkspace_def os_MkdirAll_def name cfg env_no_descriptor_def env0_def Let_def)
  from descriptor_failure_is_only_warned[where E = ?E and w = demo_world
         and workspaceName = "''demo''" and workspace = demo_workspace and repoName = "''b''"
         and wm = wm0 and repo = repoB and others = "[]" and branchName = "[]"
         and forceOverwrite = False and ?w1.0 = ?w1]
       load nomem find add go1 save1 name(3)
  have A: "fst (AddRepositoryToWorkspace ?E wm0 ''demo'' ''b'' [] False demo_world) = None
      \<and> saved (snd (AddRepositoryToWorkspace ?E wm0 ''demo'' ''b'' [] False demo_world)) ''demo''
          = Some (Good (demo_workspace\<lparr>Repositories := [repoA, repoB]\<rparr>))"
    by (simp add: name)
  from descriptor_failure_is_only_warned[where E = ?E and w = demo_world
         and workspaceName = "''demo''" and workspace = demo_workspace and repoName = "''a''"
         and wm = wm0 and repoIndex = 0 and targetRepo = repoA and force = False
         and removeFiles = False and ?w1.0 = ?w2 and ?w2.0 = ?w2]
       load find2 rm rf go2 save2 name(3)
  have B: "fst (RemoveRepositoryFromWorkspace ?E wm0 ''demo'' ''a'' False False demo_world) = None
      \<and> saved (snd (RemoveRepositoryFromWorkspace ?E wm0 ''demo'' ''a'' False False demo_world))
            ''demo''
          = Some (Good (demo_workspace\<lparr>Repositories := []\<rparr>))"
    by (simp add: name)
  from A B show ?thesis by simp
qed

subsection \<open>Delete\<close>

lemma run_cmd_fs_subset:
  "add_target args = None \<Longrightarrow> set (fs (snd (run_cmd E d args w))) \<subseteq> set (fs w)"
  by (auto simp: run_cmd_def Let_def emit_def fs_remove_tree_def split: option.splits)

lemma os_Stat_mono:
  "set (fs w') \<subseteq> set (fs w) \<Longrightarrow> os_Stat E w p \<noteq> StatOk \<Longrightarrow> os_Stat E w' p \<noteq> StatOk"
  using fs_exists_mono[of w' w p] by (auto simp: os_Stat_def split: option.splits if_splits)

lemma add_target_removal_args [simp]: "add_target (removal_args workspace force repo) = None"
  by (simp add: removal_args_def add_target_def)

lemma list_worktrees_props:
  "fs (list_worktrees E repos w) = fs w \<and> saved (list_worktrees E repos w) = saved w
   \<and> removals (trace (list_worktrees E repos w)) = removals (trace w)"
proof (induction repos arbitrary: w)
  case Nil
  then show ?case by simp
next
  case (Cons repo repos)
  let ?w1 = "snd (run_cmd E (Path repo) [''git'', ''worktree'', ''list''] w)"
  have 1: "fs ?w1 = fs w \<and> saved ?w1 = saved w \<and> removals (trace ?w1) = removals (trace w)"
    by (simp add: run_cmd_def Let_def emit_def add_target_def remove_target_def removals_def
        split: option.splits)
  have "list_worktrees E (repo # repos) w = list_worktrees E repos ?w1"
    by (simp add: case_prod_beta)
  with Cons[of ?w1] 1 show ?case by simp
qed

lemma removeWorktrees_loop_props:
  "\<exists>attempted.
     fst (removeWorktrees_loop E workspace force repos errs w)
       = errs @ List.map_filter (removal_error E workspace force) attempted
   \<and> set attempted \<subseteq> set repos
   \<and> trace (snd (removeWorktrees_loop E workspace force repos errs w))
       = trace w @ map (removal_event E workspace force) attempted
   \<and> saved (snd (removeWorktrees_loop E workspace force repos errs w)) = saved w
   \<and> set (fs (snd (removeWorktrees_loop E workspace force repos errs w))) \<subseteq> set (fs w)
   \<and> (\<forall>r\<in>set repos. r \<in> set attempted
         \<or> os_Stat E (snd (removeWorktrees_loop E workspace force repos errs w))
              (filepath_Join (ws_Path workspace) (Name r)) \<noteq> StatOk)"
proof (induction repos arbitrary: errs w)
  case Nil
  show ?case by (intro exI[of _ "[]"]) simp
next
  case (Cons repo repos)
  let ?p = "filepath_Join (ws_Path workspace) (Name repo)"
  show ?case
  proof (cases "os_Stat E w ?p = StatOk")
    case False
    then have eq: "removeWorktrees_loop E workspace force (repo # repos) errs w
                 = removeWorktrees_loop E workspace force repos errs w"
      by (cases "os_Stat E w ?p") (simp_all add: Let_def)
    from Cons[of errs w] obtain attempted where
      a: "fst (removeWorktrees_loop E workspace force repos errs w)
            = errs @ List.map_filter (removal_error E workspace force) attempted"
         "set attempted \<subseteq> set repos"
         "trace (snd (removeWorktrees_loop E workspace force repos errs w))
            = trace w @ map (removal_event E workspace force) attempted"
         "saved (snd (removeWorktrees_loop E workspace force repos errs w)) = saved w"
         "set (fs (snd (removeWorktrees_loop E workspace force repos errs w))) \<subseteq> set (fs w)"
         "\<forall>r\<in>set repos. r \<in> set attempted
            \<or> os_Stat E (snd (removeWorktrees_loop E workspace force repos errs w))
                 (filepath_Join (ws_Path workspace) (Name r)) \<noteq> StatOk"
      by (elim exE conjE) (rule that; assumption)
    have "os_Stat E (snd (removeWorktrees_loop E workspace force repos errs w)) ?p \<noteq> StatOk"
      using os_Stat_mono[OF a(5) False] .
    with a show ?thesis unfolding eq by (intro exI[of _ attempted]) auto
  next
    case True
    let ?args = "removal_args workspace force repo"
    let ?w1 = "snd (run_cmd E (Path repo) ?args w)"
    let ?errs = "errs @ List.map_filter (removal_error E workspace force) [repo]"
    have eq: "removeWorktrees_loop E workspace force (repo # repos) errs w
                 = removeWorktrees_loop E workspace force repos ?errs ?w1"
      using True
      by (cases "git_run E (Path repo) ?args")
         (auto simp add: Let_def case_prod_beta removal_args_def removal_error_def
            split: option.splits)
    have w1: "trace ?w1 = trace w @ [removal_event E workspace force repo]"
             "saved ?w1 = saved w" "set (fs ?w1) \<subseteq> set (fs w)"
      by (simp_all add: removal_event_def run_cmd_fs_subset)
    from Cons[of ?errs ?w1] obtain attempted where
      a: "fst (removeWorktrees_loop E workspace force repos ?errs ?w1)
            = ?errs @ List.map_filter (removal_error E workspace force) attempted"
         "set attempted \<subseteq> set repos"
         "trace (snd (removeWorktrees_loop E workspace force repos ?errs ?w1))
            = trace ?w1 @ map (removal_event E workspace force) attempted"
         "saved (snd (removeWorktrees_loop E workspace force repos ?errs ?w1)) = saved ?w1"
         "set (fs (snd (removeWorktrees_loop E workspace force repos ?errs ?w1))) \<subseteq> set (fs ?w1)"
         "\<forall>r\<in>set repos. r \<in> set attempted
            \<or> os_Stat E (snd (removeWorktrees_loop E workspace force repos ?errs ?w1))
                 (filepath_Join (ws_Path workspace) (Name r)) \<noteq> StatOk"
      by (elim exE conjE) (rule that; assumption)
    have mf: "?errs @ List.map_filter (removal_error E workspace force) attempted
            = errs @ List.map_filter (removal_error E workspace force) (repo # attempted)"
      by (simp add: List.map_filter_def)
    from a w1 show ?thesis unfolding eq mf
      by (intro exI[of _ "repo # attempted"]) auto
  qed
qed

lemma removals_removal_events:
  "removals (map (removal_event E workspace force) xs) = map (removal_event E workspace force) xs"
  by (induction xs) (auto simp: removals_def removal_event_def removal_args_def remove_target_def)

lemma os_Stat_fs: "fs w' = fs w \<Longrightarrow> os_Stat E w' p = os_Stat E w p"
  by (simp add: os_Stat_def fs_exists_def)

lemma removeWorktrees_props:
  "\<exists>attempted.
     set attempted \<subseteq> set (Repositories workspace)
   \<and> fst (removeWorktrees E workspace force w)
       = (if List.map_filter (removal_error E workspace force) attempted = [] then None
          else Some (New (''failed to remove some worktrees: ''
                 @ strings_Join (map Error (List.map_filter (removal_error E workspace force) attempted))
                     ''; '')))
   \<and> removals (trace (snd (removeWorktrees E workspace force w)))
       = removals (trace w) @ map (removal_event E workspace force) attempted
   \<and> saved (snd (removeWorktrees E workspace force w)) = saved w
   \<and> set (fs (snd (removeWorktrees E workspace force w))) \<subseteq> set (fs w)
   \<and> (\<forall>r\<in>set (Repositories workspace). r \<in> set attempted
         \<or> os_Stat E (snd (removeWorktrees E workspace force w))
              (filepath_Join (ws_Path workspace) (Name r)) \<noteq> StatOk)"
proof -
  let ?repos = "Repositories workspace"
  let ?w1 = "list_worktrees E ?repos w"
  let ?l = "removeWorktrees_loop E workspace force ?repos [] ?w1"
  let ?w3 = "list_worktrees E ?repos (snd ?l)"
  from removeWorktrees_loop_props[of E workspace force ?repos "[]" ?w1] obtain attempted where
    a: "fst ?l = [] @ List.map_filter (removal_error E workspace force) attempted"
       "set attempted \<subseteq> set ?repos"
       "trace (snd ?l) = trace ?w1 @ map (removal_event E workspace force) attempted"
       "saved (snd ?l) = saved ?w1"
       "set (fs (snd ?l)) \<subseteq> set (fs ?w1)"
       "\<forall>r\<in>set ?repos. r \<in> set attempted
          \<or> os_Stat E (snd ?l) (filepath_Join (ws_Path workspace) (Name r)) \<noteq> StatOk"
    by (elim exE conjE) (rule that; assumption)
  have snd_eq: "snd (removeWorktrees E workspace force w) = ?w3"
    by (simp add: removeWorktrees_def Let_def case_prod_beta)
  have fst_eq: "fst (removeWorktrees E workspace force w)
       = (if fst ?l = [] then None
          else Some (New (''failed to remove some worktrees: ''
                 @ strings_Join (map Error (fst ?l)) ''; '')))"
    by (simp add: removeWorktrees_def Let_def case_prod_beta)
  have l1: "fs ?w1 = fs w" "saved ?w1 = saved w" "removals (trace ?w1) = removals (trace w)"
    using list_worktrees_props[of E ?repos w] by simp_all
  have l3: "fs ?w3 = fs (snd ?l)" "saved ?w3 = saved (snd ?l)"
           "removals (trace ?w3) = removals (trace (snd ?l))"
    using list_worktrees_props[of E ?repos "snd ?l"] by simp_all
  have r: "removals (trace ?w3) = removals (trace w) @ map (removal_event E workspace force) attempted"
    using l3(3) a(3) l1(3) removals_removal_events[of E workspace force attempted]
    by (simp add: removals_def)
  have st: "\<forall>r\<in>set ?repos. r \<in> set attempted
          \<or> os_Stat E ?w3 (filepath_Join (ws_Path workspace) (Name r)) \<noteq> StatOk"
    using a(6) os_Stat_fs[OF l3(1)] by simp
  show ?thesis unfolding snd_eq fst_eq
    using a(1,2,4,5) l1 l3 r st by (intro exI[of _ attempted]) simp
qed

text \<open>
  Claim C4, as amended. Delete is best-effort over the members, and a failed teardown keeps
  the bookkeeping: when the workspace loads and \<open>removeWorktrees\<close> reports a failure, there is
  a list of attempted members such that every member was attempted or has no worktree
  directory afterwards, the removal commands of the call are those of the attempted members, in
  order, whatever their outcomes; the failures collected are those of the attempted members
  whose command failed, each naming its repository, and there is at least one; Delete returns
  the aggregate error built from them; and the persisted records are untouched, so the record
  of the workspace is still there: Delete returns before removing files or the record.
\<close>

theorem delete_failure_keeps_record:
  assumes "LoadWorkspace E w name = Inr workspace"
    and "fst (removeWorktrees E workspace forceWorktrees w) \<noteq> None"
  shows "\<exists>attempted failures.
      set attempted \<subseteq> set (Repositories workspace)
    \<and> (\<forall>r\<in>set (Repositories workspace). r \<in> set attempted
          \<or> os_Stat E (snd (DeleteWorkspace E wm name removeFiles forceWorktrees w))
               (filepath_Join (ws_Path workspace) (Name r)) \<noteq> StatOk)
    \<and> removals (trace (snd (DeleteWorkspace E wm name removeFiles forceWorktrees w)))
        = removals (trace w) @ map (removal_event E workspace forceWorktrees) attempted
    \<and> failures = List.map_filter (removal_error E workspace forceWorktrees) attempted
    \<and> failures \<noteq> []
    \<and> fst (DeleteWorkspace E wm name removeFiles forceWorktrees w)
        = Some (Wrap (New (''failed to remove some worktrees: ''
                           @ strings_Join (map Error failures) ''; ''))
                  ''failed to remove worktrees'')
    \<and> saved (snd (DeleteWorkspace E wm name removeFiles forceWorktrees w)) = saved w
    \<and> saved (snd (DeleteWorkspace E wm name removeFiles forceWorktrees w)) name
        = Some (Good workspace)"
proof -
  let ?R = "removeWorktrees E workspace forceWorktrees w"
  from assms(2) obtain e where e: "fst ?R = Some e" by auto
  have D: "DeleteWorkspace E wm name removeFiles forceWorktrees w
             = (Some (Wrap e ''failed to remove worktrees''), snd ?R)"
    using assms(1) e by (simp add: DeleteWorkspace_def case_prod_beta)
  have rec: "saved w name = Some (Good workspace)"
    using assms(1)
    by (auto simp: LoadWorkspace_def Let_def split: sum.splits option.splits stored.splits)
  from removeWorktrees_props[of workspace E forceWorktrees w] obtain attempted where
    a: "set attempted \<subseteq> set (Repositories workspace)"
       "fst ?R = (if List.map_filter (removal_error E workspace forceWorktrees) attempted = []
                  then None
          else Some (New (''failed to remove some worktrees: ''
                 @ strings_Join (map Error (List.map_filter (removal_error E workspace forceWorktrees) attempted))
                     ''; '')))"
       "removals (trace (snd ?R))
          = removals (trace w) @ map (removal_event E workspace forceWorktrees) attempted"
       "saved (snd ?R) = saved w"
       "\<forall>r\<in>set (Repositories workspace). r \<in> set attempted
         \<or> os_Stat E (snd ?R) (filepath_Join (ws_Path workspace) (Name r)) \<noteq> StatOk"
    by (elim exE conjE) (rule that; assumption)
  from a(2) e have ne: "List.map_filter (removal_error E workspace forceWorktrees) attempted \<noteq> []"
    by (auto split: if_splits)
  with a(2) e have ee: "e = New (''failed to remove some worktrees: ''
                 @ strings_Join (map Error (List.map_filter (removal_error E workspace forceWorktrees) attempted))
                     ''; '')"
    by simp
  show ?thesis unfolding D
    using a(1,3,4,5) ne ee rec
    by (intro exI[of _ attempted]
          exI[of _ "List.map_filter (removal_error E workspace forceWorktrees) attempted"]) simp
qed

text \<open>
  Claim C4 as stated says that the persisted record is removed even when a teardown failed.
  With members \<^verbatim>\<open>a\<close> and \<^verbatim>\<open>b\<close>, the teardown of \<^verbatim>\<open>a\<close> failing and that of \<^verbatim>\<open>b\<close> succeeding,
  Delete attempts both and returns the aggregate error naming \<^verbatim>\<open>a\<close>, the checkout of \<^verbatim>\<open>b\<close> is
  gone, and the record of \<^verbatim>\<open>demo\<close> is still persisted.
\<close>

theorem delete_record_survives_counterexample:
  "fst (DeleteWorkspace (env_fail (\<lambda>dir args. dir = ''/src/a'' \<and> is_remove_cmd args)) wm0
          ''demo'' True True pair_world)
     = Some (Wrap (New (''failed to remove some worktrees: ''
                        @ ''failed to remove worktree for a: fatal: exit status 128''))
               ''failed to remove worktrees'')
   \<and> removals (trace (snd (DeleteWorkspace
          (env_fail (\<lambda>dir args. dir = ''/src/a'' \<and> is_remove_cmd args)) wm0
          ''demo'' True True pair_world)))
     = [Exec ''/src/a'' [''git'', ''worktree'', ''remove'', ''--force'', ''/ws/demo/a'']
          (Some (''exit status 128'', ''fatal'')),
        Exec ''/src/b'' [''git'', ''worktree'', ''remove'', ''--force'', ''/ws/demo/b''] None]
   \<and> fs (snd (DeleteWorkspace (env_fail (\<lambda>dir args. dir = ''/src/a'' \<and> is_remove_cmd args)) wm0
          ''demo'' True True pair_world)) = [''/ws/demo'', ''/ws/demo/a'']
   \<and> saved (snd (DeleteWorkspace (env_fail (\<lambda>dir args. dir = ''/src/a'' \<and> is_remove_cmd args))
          wm0 ''demo'' True True pair_world)) ''demo''
     = Some (Good pair_workspace)"
proof -
  let ?E = "env_fail (\<lambda>dir args. dir = ''/src/a'' \<and> is_remove_cmd args)"
  let ?la = "Exec ''/src/a'' [''git'', ''worktree'', ''list''] None"
  let ?lb = "Exec ''/src/b'' [''git'', ''worktree'', ''list''] None"
  let ?ra = "Exec ''/src/a'' [''git'', ''worktree'', ''remove'', ''--force'', ''/ws/demo/a'']
               (Some (''exit status 128'', ''fatal''))"
  let ?rb = "Exec ''/src/b'' [''git'', ''worktree'', ''remove'', ''--force'', ''/ws/demo/b''] None"
  have ws: "ws_Path pair_workspace = ''/ws/demo''" "Repositories pair_workspace = [repoA, repoB]"
    by (simp_all add: pair_workspace_def new_workspace_def wm0_def filepath_Join_def)
  have load: "LoadWorkspace ?E pair_world ''demo'' = Inr pair_workspace"
    by (simp add: LoadWorkspace_def env_fail_def env0_def pair_world_def)
  have R: "removeWorktrees ?E pair_workspace True pair_world
     = (Some (New (''failed to remove some worktrees: ''
                        @ ''failed to remove worktree for a: fatal: exit status 128'')),
        \<lparr>fs = [''/ws/demo'', ''/ws/demo/a''], saved = [''demo'' \<mapsto> Good pair_workspace],
         trace = [?la, ?lb, ?ra, ?rb, ?la, ?lb]\<rparr>)"
    by (simp add: removeWorktrees_def ws repoA_def repoB_def pair_world_def os_Stat_def
          fs_exists_def below_def run_cmd_def emit_def fs_remove_tree_def add_target_def
          remove_target_def env_fail_def env0_def is_remove_cmd_def filepath_Join_def Let_def)
  show ?thesis
    by (simp add: DeleteWorkspace_def load R removals_def remove_target_def)
qed

theorem delete_failure_keeps_record_witness:
  "(\<exists>failures. failures \<noteq> []
      \<and> fst (DeleteWorkspace (env_fail (\<lambda>dir args. dir = ''/src/b'' \<and> is_remove_cmd args)) wm0
               ''demo'' False False pair_world)
          = Some (Wrap (New (''failed to remove some worktrees: ''
                             @ strings_Join (map Error failures) ''; ''))
                    ''failed to remove worktrees''))
   \<and> saved (snd (DeleteWorkspace (env_fail (\<lambda>dir args. dir = ''/src/b'' \<and> is_remove_cmd args))
          wm0 ''demo'' False False pair_world)) ''demo''
     = Some (Good pair_workspace)"
proof -
  let ?E = "env_fail (\<lambda>dir args. dir = ''/src/b'' \<and> is_remove_cmd args)"
  have ws: "ws_Path pair_workspace = ''/ws/demo''" "Repositories pair_workspace = [repoA, repoB]"
    by (simp_all add: pair_workspace_def new_workspace_def wm0_def filepath_Join_def)
  have load: "LoadWorkspace ?E pair_world ''demo'' = Inr pair_workspace"
    by (simp add: LoadWorkspace_def env_fail_def env0_def pair_world_def)
  have R: "fst (removeWorktrees ?E pair_workspace False pair_world) \<noteq> None"
    by (simp add: removeWorktrees_def ws repoA_def repoB_def pair_world_def os_Stat_def
          fs_exists_def below_def run_cmd_def emit_def fs_remove_tree_def add_target_def
          remove_target_def env_fail_def env0_def is_remove_cmd_def filepath_Join_def Let_def)
  from delete_failure_keeps_record[OF load R, of wm0 False] show ?thesis by blast
qed

subsection \<open>Create\<close>

lemma ExecuteWorktreeCommand_fst:
  "fst (ExecuteWorktreeCommand E d args w) =
     map_option (\<lambda>(err, cmdOutput). Wrap (External err) (''git command failed: '' @ cmdOutput))
       (git_run E d args)"
  by (cases "git_run E d args")
     (auto simp: ExecuteWorktreeCommand_def case_prod_beta run_cmd_def Let_def split: option.splits)

lemma ExecuteWorktreeCommand_snd:
  "snd (ExecuteWorktreeCommand E d args w) = snd (run_cmd E d args w)"
  by (cases "git_run E d args")
     (auto simp: ExecuteWorktreeCommand_def case_prod_beta run_cmd_def Let_def split: option.splits)

lemma CheckBranchExists_snd:
  "snd (CheckBranchExists E d branch w) =
     snd (run_cmd E d [''git'', ''show-ref'', ''--verify'', ''--quiet'', ''refs/heads/'' @ branch] w)"
  by (simp add: CheckBranchExists_def case_prod_beta)

lemma CheckRemoteBranchExists_snd:
  "snd (CheckRemoteBranchExists E d branch w) =
     snd (run_cmd E d
            [''git'', ''show-ref'', ''--verify'', ''--quiet'', ''refs/remotes/origin/'' @ branch] w)"
  by (simp add: CheckRemoteBranchExists_def case_prod_beta)

lemma createWorktree_outcome:
  "fst (createWorktree E workspace repo w) = worktree_outcome E workspace repo"
  by (simp add: worktree_outcome_def createWorktree_def Let_def case_prod_beta
        CheckBranchExists_fst CheckRemoteBranchExists_fst ExecuteWorktreeCommand_fst
      split: sum.splits)

lemma removals_run_cmd:
  "remove_target args = None \<Longrightarrow>
   removals (trace (snd (run_cmd E d args w))) = removals (trace w)"
  by (simp add: removals_def)

lemma createWorktree_frame:
  "saved (snd (createWorktree E workspace repo w)) = saved w
   \<and> removals (trace (snd (createWorktree E workspace repo w))) = removals (trace w)"
  by (simp add: createWorktree_def Let_def case_prod_beta
        CheckBranchExists_fst CheckRemoteBranchExists_fst ExecuteWorktreeCommand_snd
        CheckBranchExists_snd CheckRemoteBranchExists_snd removals_def remove_target_def
      split: sum.splits)

lemma os_ReadDir_Inl:
  "os_ReadDir E w p = Inl e \<Longrightarrow> readdir_err E p \<noteq> None \<or> \<not> fs_exists w p"
  by (auto simp: os_ReadDir_def split: option.splits if_splits)

lemma fs_remove_tree_gone: "\<not> fs_exists (fs_remove_tree p w) p"
  by (auto simp: fs_exists_def fs_remove_tree_def list_ex_iff)

lemma cleanup_frame:
  "saved (cleanupWorkspaceDirectory E p w) = saved w
   \<and> removals (trace (cleanupWorkspaceDirectory E p w)) = removals (trace w)
   \<and> set (fs (cleanupWorkspaceDirectory E p w)) \<subseteq> set (fs w)"
  by (auto simp: cleanupWorkspaceDirectory_def os_RemoveAll_def emit_def removals_def
        fs_remove_tree_def Let_def split: sum.splits option.splits)

lemma cleanup_root:
  assumes "p \<noteq> []"
  shows "\<not> fs_exists (cleanupWorkspaceDirectory E p w) p
       \<or> readdir_err E p \<noteq> None \<or> remove_all_err E p \<noteq> None
       \<or> (\<exists>entries. os_ReadDir E (cleanupWorkspaceDirectory E p w) p = Inr entries
              \<and> \<not> list_all (\<lambda>entry. entry \<in> set expectedFiles) entries)"
proof (cases "os_Stat E w p = StatNotExist")
  case True
  then have "\<not> fs_exists w p" by (auto simp: os_Stat_def split: option.splits if_splits)
  moreover have "cleanupWorkspaceDirectory E p w = w"
    using True by (simp add: cleanupWorkspaceDirectory_def)
  ultimately show ?thesis by simp
next
  case False
  show ?thesis
  proof (cases "os_ReadDir E w p")
    case (Inl e)
    then have "cleanupWorkspaceDirectory E p w
                 = emit (LogWarn ''Failed to read workspace directory during cleanup'') w"
      using assms False by (simp add: cleanupWorkspaceDirectory_def)
    then have "fs_exists (cleanupWorkspaceDirectory E p w) p = fs_exists w p"
      by (simp add: fs_exists_def emit_def)
    with os_ReadDir_Inl[OF Inl] show ?thesis by blast
  next
    case (Inr entries)
    show ?thesis
    proof (cases "length entries = 0 \<or> list_all (\<lambda>entry. entry \<in> set expectedFiles) entries")
      case keep: False
      then have "cleanupWorkspaceDirectory E p w = w"
        using assms False Inr by (simp add: cleanupWorkspaceDirectory_def)
      with Inr keep show ?thesis by auto
    next
      case rm: True
      show ?thesis
      proof (cases "remove_all_err E p")
        case None
        then have "cleanupWorkspaceDirectory E p w = fs_remove_tree p w"
          using assms False Inr rm
          by (auto simp add: cleanupWorkspaceDirectory_def os_RemoveAll_def)
        then show ?thesis using fs_remove_tree_gone by simp
      next
        case (Some e)
        then show ?thesis by simp
      qed
    qed
  qed
qed

lemma createWorktrees_loop_ok:
  "\<forall>r\<in>set repos. worktree_outcome E workspace r = None \<Longrightarrow>
   \<exists>w1. createWorktrees_loop E workspace repos created w
           = (Inr (created @ map (worktree_info workspace) repos), w1)
      \<and> saved w1 = saved w \<and> removals (trace w1) = removals (trace w)"
proof (induction repos arbitrary: created w)
  case Nil
  then show ?case by simp
next
  case (Cons repo repos)
  let ?c = "createWorktree E workspace repo w"
  have ok: "fst ?c = None" using Cons.prems by (simp add: createWorktree_outcome)
  then have step: "createWorktrees_loop E workspace (repo # repos) created w
      = createWorktrees_loop E workspace repos (created @ [worktree_info workspace repo]) (snd ?c)"
    by (simp add: case_prod_beta worktree_info_def Let_def)
  from Cons.IH[of "created @ [worktree_info workspace repo]" "snd ?c"] Cons.prems
  obtain w1 where
    "createWorktrees_loop E workspace repos (created @ [worktree_info workspace repo]) (snd ?c)
       = (Inr ((created @ [worktree_info workspace repo]) @ map (worktree_info workspace) repos), w1)"
    "saved w1 = saved (snd ?c)" "removals (trace w1) = removals (trace (snd ?c))"
    by auto
  then show ?case unfolding step using createWorktree_frame[of E workspace repo w] by simp
qed

lemma createWorktrees_loop_fail:
  "\<exists>r\<in>set repos. worktree_outcome E workspace r \<noteq> None \<Longrightarrow>
   \<exists>e w1. createWorktrees_loop E workspace repos created w
           = (Inl e, cleanupWorkspaceDirectory E (ws_Path workspace)
                       (rollbackWorktrees E
                          (created @ map (worktree_info workspace)
                             (takeWhile (\<lambda>r. worktree_outcome E workspace r = None) repos)) w1))
      \<and> saved w1 = saved w \<and> removals (trace w1) = removals (trace w)"
proof (induction repos arbitrary: created w)
  case Nil
  then show ?case by simp
next
  case (Cons repo repos)
  let ?c = "createWorktree E workspace repo w"
  show ?case
  proof (cases "worktree_outcome E workspace repo")
    case (Some err)
    then have "fst ?c = Some err" by (simp add: createWorktree_outcome)
    then have step: "createWorktrees_loop E workspace (repo # repos) created w
      = (Inl (Wrap err (''failed to create worktree for '' @ Name repo)),
         cleanupWorkspaceDirectory E (ws_Path workspace) (rollbackWorktrees E created (snd ?c)))"
      by (simp add: case_prod_beta Let_def)
    have tw: "takeWhile (\<lambda>r. worktree_outcome E workspace r = None) (repo # repos) = []"
      using Some by simp
    show ?thesis unfolding step tw
      using createWorktree_frame[of E workspace repo w]
      by (intro exI[of _ "Wrap err (''failed to create worktree for '' @ Name repo)"]
            exI[of _ "snd ?c"]) simp
  next
    case None
    then have ok: "fst ?c = None" by (simp add: createWorktree_outcome)
    then have step: "createWorktrees_loop E workspace (repo # repos) created w
      = createWorktrees_loop E workspace repos (created @ [worktree_info workspace repo]) (snd ?c)"
      by (simp add: case_prod_beta worktree_info_def Let_def)
    from Cons.prems None have "\<exists>r\<in>set repos. worktree_outcome E workspace r \<noteq> None" by auto
    from Cons.IH[OF this, of "created @ [worktree_info workspace repo]" "snd ?c"]
    obtain e w1 where
      "createWorktrees_loop E workspace repos (created @ [worktree_info workspace repo]) (snd ?c)
         = (Inl e, cleanupWorkspaceDirectory E (ws_Path workspace)
                       (rollbackWorktrees E
                          ((created @ [worktree_info workspace repo]) @ map (worktree_info workspace)
                             (takeWhile (\<lambda>r. worktree_outcome E workspace r = None) repos)) w1))"
      "saved w1 = saved (snd ?c)" "removals (trace w1) = removals (trace (snd ?c))"
      by auto
    moreover have tw: "takeWhile (\<lambda>r. worktree_outcome E workspace r = None) (repo # repos)
        = repo # takeWhile (\<lambda>r. worktree_outcome E workspace r = None) repos"
      using None by simp
    ultimately show ?thesis unfolding step tw
      using createWorktree_frame[of E workspace repo w]
      by (intro exI[of _ e] exI[of _ w1]) simp
  qed
qed

lemma unwind_props:
  assumes "p \<noteq> []"
  shows "saved (cleanupWorkspaceDirectory E p (rollbackWorktrees E created w)) = saved w
   \<and> removals (trace (cleanupWorkspaceDirectory E p (rollbackWorktrees E created w)))
       = removals (trace w) @ map (forced_removal E) (rev created)
   \<and> (\<forall>wt\<in>set created.
         fs_exists (cleanupWorkspaceDirectory E p (rollbackWorktrees E created w)) (TargetPath wt)
         \<longrightarrow> git_run E (Path (wt_Repository wt))
               [''git'', ''worktree'', ''remove'', ''--force'', TargetPath wt] \<noteq> None)
   \<and> (\<not> fs_exists (cleanupWorkspaceDirectory E p (rollbackWorktrees E created w)) p
       \<or> readdir_err E p \<noteq> None \<or> remove_all_err E p \<noteq> None
       \<or> (\<exists>entries. os_ReadDir E (cleanupWorkspaceDirectory E p (rollbackWorktrees E created w)) p
                         = Inr entries
              \<and> \<not> list_all (\<lambda>entry. entry \<in> set expectedFiles) entries))"
proof -
  let ?r = "rollbackWorktrees E created w"
  let ?c = "cleanupWorkspaceDirectory E p ?r"
  note rb = rollbackWorktrees_props[of E created w]
  note cl = cleanup_frame[of E p ?r]
  have 1: "saved ?c = saved w" using rb cl by simp
  have 2: "removals (trace ?c) = removals (trace w) @ map (forced_removal E) (rev created)"
  proof -
    have "removals (trace ?r) = removals (trace w) @ removals (concat (map (rollback_events E) (rev created)))"
      using rb by (simp add: removals_def)
    then show ?thesis using cl removals_rollback_events[of E "rev created"] by simp
  qed
  have 3: "\<forall>wt\<in>set created. fs_exists ?c (TargetPath wt)
         \<longrightarrow> git_run E (Path (wt_Repository wt))
               [''git'', ''worktree'', ''remove'', ''--force'', TargetPath wt] \<noteq> None"
  proof (intro ballI impI)
    fix wt assume wt: "wt \<in> set created" and ex: "fs_exists ?c (TargetPath wt)"
    have "set (fs ?c) \<subseteq> set (fs ?r)" using cl by simp
    from fs_exists_mono[OF this ex] have "fs_exists ?r (TargetPath wt)" .
    with rb wt show "git_run E (Path (wt_Repository wt))
               [''git'', ''worktree'', ''remove'', ''--force'', TargetPath wt] \<noteq> None"
      by blast
  qed
  from 1 2 3 cleanup_root[OF assms, of E ?r] show ?thesis by blast
qed

lemma CreateGoWorkspace_props:
  "fst (CreateGoWorkspace E workspace w) = fst (CreateGoWorkspace E workspace w0)
   \<and> saved (snd (CreateGoWorkspace E workspace w)) = saved w
   \<and> trace (snd (CreateGoWorkspace E workspace w)) = trace w"
  by (simp add: CreateGoWorkspace_def os_WriteFile_def fs_add_def Let_def split: option.splits)

lemma copyAgentMD_props:
  "fst (copyAgentMD E workspace w) = fst (copyAgentMD E workspace w0)
   \<and> saved (snd (copyAgentMD E workspace w)) = saved w
   \<and> trace (snd (copyAgentMD E workspace w)) = trace w"
  by (simp add: copyAgentMD_def os_WriteFile_def fs_add_def Let_def
      split: option.splits sum.splits)

lemma takeWhile_all: "\<forall>x\<in>set xs. P x \<Longrightarrow> takeWhile P xs = xs"
  by (induction xs) auto

lemma createWorkspaceStructure_fails:
  assumes mk: "mkdir_err E (ws_Path workspace) = None"
    and F: "(\<exists>r\<in>set (Repositories workspace). worktree_outcome E workspace r \<noteq> None)
            \<or> descriptor_outcome E workspace \<noteq> None \<or> agent_outcome E workspace \<noteq> None"
  shows "\<exists>e w1. createWorkspaceStructure E workspace w
            = (Some e, cleanupWorkspaceDirectory E (ws_Path workspace)
                         (rollbackWorktrees E (created_before_failure E workspace) w1))
          \<and> saved w1 = saved w \<and> removals (trace w1) = removals (trace w)"
proof -
  let ?w0 = "fs_add (ws_Path workspace) w"
  have w0: "saved ?w0 = saved w" "trace ?w0 = trace w" by (simp_all add: fs_add_def)
  have mkd: "os_MkdirAll E (ws_Path workspace) w = (None, ?w0)"
    using mk by (simp add: os_MkdirAll_def)
  show ?thesis
  proof (cases "\<exists>r\<in>set (Repositories workspace). worktree_outcome E workspace r \<noteq> None")
    case True
    from createWorktrees_loop_fail[OF True, of "[]" ?w0] obtain e w1 where
      l: "createWorktrees_loop E workspace (Repositories workspace) [] ?w0
           = (Inl e, cleanupWorkspaceDirectory E (ws_Path workspace)
                       (rollbackWorktrees E ([] @ map (worktree_info workspace)
                             (takeWhile (\<lambda>r. worktree_outcome E workspace r = None)
                                (Repositories workspace))) w1))"
         "saved w1 = saved ?w0" "removals (trace w1) = removals (trace ?w0)"
      by blast
    have "createWorkspaceStructure E workspace w
            = (Some e, cleanupWorkspaceDirectory E (ws_Path workspace)
                         (rollbackWorktrees E (created_before_failure E workspace) w1))"
      by (simp add: createWorkspaceStructure_def mkd l(1) created_before_failure_def)
    with l(2,3) w0 show ?thesis by auto
  next
    case False
    then have all: "\<forall>r\<in>set (Repositories workspace). worktree_outcome E workspace r = None"
      by simp
    have cb: "created_before_failure E workspace
                = map (worktree_info workspace) (Repositories workspace)"
      by (simp add: created_before_failure_def takeWhile_all[OF all])
    from createWorktrees_loop_ok[OF all, of "[]" ?w0] obtain w1 where
      l: "createWorktrees_loop E workspace (Repositories workspace) [] ?w0
           = (Inr (created_before_failure E workspace), w1)"
         "saved w1 = saved ?w0" "removals (trace w1) = removals (trace ?w0)"
      unfolding cb by auto
    let ?g = "if GoWorkspace workspace then CreateGoWorkspace E workspace w1 else (None, w1)"
    define wg where "wg = snd ?g"
    have g: "fst ?g = descriptor_outcome E workspace" "saved wg = saved w1" "trace wg = trace w1"
      using CreateGoWorkspace_props[of E workspace w1 empty_world]
      by (simp_all add: descriptor_outcome_def wg_def)
    let ?a = "if AgentMD workspace \<noteq> [] then copyAgentMD E workspace wg else (None, wg)"
    define wa where "wa = snd ?a"
    have a: "fst ?a = agent_outcome E workspace" "saved wa = saved wg" "trace wa = trace wg"
      using copyAgentMD_props[of E workspace wg empty_world]
      by (simp_all add: agent_outcome_def wa_def)
    show ?thesis
    proof (cases "descriptor_outcome E workspace")
      case (Some err)
      then have "?g = (Some err, wg)" using g(1) by (simp add: prod_eq_iff wg_def)
      then have "createWorkspaceStructure E workspace w
            = (Some (Wrap err ''failed to create go.work file''),
               cleanupWorkspaceDirectory E (ws_Path workspace)
                 (rollbackWorktrees E (created_before_failure E workspace) wg))"
        by (simp add: createWorkspaceStructure_def mkd l(1))
      with g(2,3) l(2,3) w0 show ?thesis by auto
    next
      case None
      then have gN: "?g = (None, wg)" using g(1) by (simp add: prod_eq_iff wg_def)
      from F False None obtain err where err: "agent_outcome E workspace = Some err" by auto
      then have "?a = (Some err, wa)" using a(1) by (simp add: prod_eq_iff wa_def)
      with gN have "createWorkspaceStructure E workspace w
            = (Some (Wrap err ''failed to copy AGENT.md''),
               cleanupWorkspaceDirectory E (ws_Path workspace)
                 (rollbackWorktrees E (created_before_failure E workspace) wa))"
        by (simp add: createWorkspaceStructure_def mkd l(1))
      with a(2,3) g(2,3) l(2,3) w0 show ?thesis by auto
    qed
  qed
qed

text \<open>
  Claim C1, as amended. A failed Create unwinds as far as the outside lets it. Take a Create
  with a non-empty name whose names resolve and whose root directory can be made, and let
  the checkout of some repository fail, or the descriptor, or the copy of the agent file.
  Then \<open>CreateWorkspace\<close> returns an error; the persisted records are what they were; the
  removal commands of the call are the forced removals of the worktrees created before the
  failure, last created first; every one of those worktrees that is still on disk afterwards
  is one whose forced removal failed; and the root directory is gone unless it could not be
  read or removed or still holds an entry other than \<^verbatim>\<open>go.work\<close>, \<^verbatim>\<open>AGENT.md\<close>, \<^verbatim>\<open>.gitignore\<close>.
\<close>

theorem create_failure_unwinds:
  assumes "name \<noteq> []" and "FindRepositories wm repoNames = Inr repos"
    and "mkdir_err E (filepath_Join (workspaceDir wm) name) = None"
    and "(\<exists>r\<in>set repos.
            worktree_outcome E (new_workspace E wm name repos branch agentSource) r \<noteq> None)
         \<or> descriptor_outcome E (new_workspace E wm name repos branch agentSource) \<noteq> None
         \<or> agent_outcome E (new_workspace E wm name repos branch agentSource) \<noteq> None"
  shows "\<exists>e w'.
      CreateWorkspace E wm name repoNames branch agentSource False w = (Inl e, w')
    \<and> saved w' = saved w
    \<and> removals (trace w')
        = removals (trace w)
          @ map (forced_removal E)
              (rev (created_before_failure E (new_workspace E wm name repos branch agentSource)))
    \<and> (\<forall>wt\<in>set (created_before_failure E (new_workspace E wm name repos branch agentSource)).
          fs_exists w' (TargetPath wt)
          \<longrightarrow> git_run E (Path (wt_Repository wt))
                [''git'', ''worktree'', ''remove'', ''--force'', TargetPath wt] \<noteq> None)
    \<and> (\<not> fs_exists w' (filepath_Join (workspaceDir wm) name)
        \<or> readdir_err E (filepath_Join (workspaceDir wm) name) \<noteq> None
        \<or> remove_all_err E (filepath_Join (workspaceDir wm) name) \<noteq> None
        \<or> (\<exists>entries. os_ReadDir E w' (filepath_Join (workspaceDir wm) name) = Inr entries
               \<and> \<not> list_all (\<lambda>entry. entry \<in> set expectedFiles) entries))"
proof -
  let ?ws = "new_workspace E wm name repos branch agentSource"
  let ?root = "filepath_Join (workspaceDir wm) name"
  have p: "ws_Path ?ws = ?root" "Repositories ?ws = repos"
    by (simp_all add: new_workspace_def)
  have ne: "?root \<noteq> []" using assms(1) by (simp add: filepath_Join_def)
  have mk: "mkdir_err E (ws_Path ?ws) = None" using assms(3) p by simp
  have F: "(\<exists>r\<in>set (Repositories ?ws). worktree_outcome E ?ws r \<noteq> None)
            \<or> descriptor_outcome E ?ws \<noteq> None \<or> agent_outcome E ?ws \<noteq> None"
    using assms(4) p by simp
  from createWorkspaceStructure_fails[OF mk F, of w] obtain e w1 where
    st: "createWorkspaceStructure E ?ws w
            = (Some e, cleanupWorkspaceDirectory E ?root
                         (rollbackWorktrees E (created_before_failure E ?ws) w1))"
        "saved w1 = saved w" "removals (trace w1) = removals (trace w)"
    unfolding p by blast
  let ?w' = "cleanupWorkspaceDirectory E ?root (rollbackWorktrees E (created_before_failure E ?ws) w1)"
  have C: "CreateWorkspace E wm name repoNames branch agentSource False w
             = (Inl (Wrap e ''failed to create workspace structure''), ?w')"
    using assms(1,2) st(1) by (simp add: CreateWorkspace_def new_workspace_def)
  from unwind_props[OF ne, of E "created_before_failure E ?ws" w1] st(2,3)
  show ?thesis unfolding C
    by (intro exI[of _ "Wrap e ''failed to create workspace structure''"] exI[of _ ?w']) simp
qed

text \<open>
  Claim C1 as stated promises that after a failed Create no earlier worktree and no root
  directory is left. Create \<^verbatim>\<open>demo\<close> over \<^verbatim>\<open>a\<close> and \<^verbatim>\<open>b\<close> where the checkout of \<^verbatim>\<open>b\<close> fails
  and the forced removal of the worktree of \<^verbatim>\<open>a\<close> fails too: the call returns an error, and
  the worktree \<^verbatim>\<open>/ws/demo/a\<close> and the root \<^verbatim>\<open>/ws/demo\<close> are both still there.
\<close>

theorem create_not_atomic_counterexample:
  "isl (fst (CreateWorkspace
          (env_fail (\<lambda>dir args. dir = ''/src/b'' \<and> is_add_cmd args
                                \<or> dir = ''/src/a'' \<and> is_remove_cmd args))
          wm0 ''demo'' [''a'', ''b''] [] [] False empty_world))
   \<and> fs (snd (CreateWorkspace
          (env_fail (\<lambda>dir args. dir = ''/src/b'' \<and> is_add_cmd args
                                \<or> dir = ''/src/a'' \<and> is_remove_cmd args))
          wm0 ''demo'' [''a'', ''b''] [] [] False empty_world))
     = [''/ws/demo/a'', ''/ws/demo'']
   \<and> fs_exists (snd (CreateWorkspace
          (env_fail (\<lambda>dir args. dir = ''/src/b'' \<and> is_add_cmd args
                                \<or> dir = ''/src/a'' \<and> is_remove_cmd args))
          wm0 ''demo'' [''a'', ''b''] [] [] False empty_world)) ''/ws/demo/a''
   \<and> fs_exists (snd (CreateWorkspace
          (env_fail (\<lambda>dir args. dir = ''/src/b'' \<and> is_add_cmd args
                                \<or> dir = ''/src/a'' \<and> is_remove_cmd args))
          wm0 ''demo'' [''a'', ''b''] [] [] False empty_world)) ''/ws/demo''"
proof -
  let ?E = "env_fail (\<lambda>dir args. dir = ''/src/b'' \<and> is_add_cmd args
                                \<or> dir = ''/src/a'' \<and> is_remove_cmd args)"
  let ?ws = "\<lparr>ws_Name = ''demo'', ws_Path = ''/ws/demo'', Repositories = [repoA, repoB],
             Branch = [], BaseBranch = [], Created = 0, GoWorkspace = True, AgentMD = []\<rparr>"
  let ?w = "\<lparr>fs = [''/ws/demo/a'', ''/ws/demo''], saved = Map.empty,
            trace = [Exec ''/src/a'' [''git'', ''worktree'', ''add'', ''/ws/demo/a''] None,
                     Exec ''/src/b'' [''git'', ''worktree'', ''add'', ''/ws/demo/b'']
                       (Some (''exit status 128'', ''fatal'')),
                     Exec ''/src/a'' [''git'', ''worktree'', ''remove'', ''--force'', ''/ws/demo/a'']
                       (Some (''exit status 128'', ''fatal'')),
                     LogWarn ''Failed to remove worktree during rollback'']\<rparr>"
  have f: "FindRepositories wm0 [''a'', ''b''] = Inr [repoA, repoB]"
    by (simp add: FindRepositories_def wm0_def repoA_def repoB_def)
  have ws: "ws_Path ?ws = ''/ws/demo''" "Repositories ?ws = [repoA, repoB]" "Branch ?ws = []"
    by simp_all
  have built: "filepath_Join (workspaceDir wm0) ''demo'' = ''/ws/demo''" "time_Now ?E = 0"
    "shouldCreateGoWorkspace [repoA, repoB] = True"
    by (simp_all add: filepath_Join_def wm0_def env_fail_def env0_def repoA_def)
  have a: "createWorktree ?E ?ws repoA \<lparr>fs = [''/ws/demo''], saved = Map.empty, trace = []\<rparr>
      = (None, \<lparr>fs = [''/ws/demo/a'', ''/ws/demo''], saved = Map.empty,
                trace = [Exec ''/src/a'' [''git'', ''worktree'', ''add'', ''/ws/demo/a''] None]\<rparr>)"
    by (simp add: createWorktree_def ws ExecuteWorktreeCommand_def run_cmd_def emit_def fs_add_def
          add_target_def env_fail_def env0_def is_add_cmd_def is_remove_cmd_def repoA_def
          filepath_Join_def Let_def)
  have b: "createWorktree ?E ?ws repoB
        \<lparr>fs = [''/ws/demo/a'', ''/ws/demo''], saved = Map.empty,
         trace = [Exec ''/src/a'' [''git'', ''worktree'', ''add'', ''/ws/demo/a''] None]\<rparr>
      = (Some (Wrap (External ''exit status 128'') (''git command failed: '' @ ''fatal'')),
         \<lparr>fs = [''/ws/demo/a'', ''/ws/demo''], saved = Map.empty,
          trace = [Exec ''/src/a'' [''git'', ''worktree'', ''add'', ''/ws/demo/a''] None,
                   Exec ''/src/b'' [''git'', ''worktree'', ''add'', ''/ws/demo/b'']
                       (Some (''exit status 128'', ''fatal''))]\<rparr>)"
    by (simp add: createWorktree_def ws ExecuteWorktreeCommand_def run_cmd_def emit_def fs_add_def
          add_target_def env_fail_def env0_def is_add_cmd_def is_remove_cmd_def repoB_def
          filepath_Join_def Let_def)
  have r: "rollbackWorktrees ?E
             [\<lparr>wt_Repository = repoA, TargetPath = ''/ws/demo/a'', wt_Branch = []\<rparr>]
        \<lparr>fs = [''/ws/demo/a'', ''/ws/demo''], saved = Map.empty,
          trace = [Exec ''/src/a'' [''git'', ''worktree'', ''add'', ''/ws/demo/a''] None,
                   Exec ''/src/b'' [''git'', ''worktree'', ''add'', ''/ws/demo/b'']
                       (Some (''exit status 128'', ''fatal''))]\<rparr> = ?w"
    by (simp add: rollbackWorktrees_def run_cmd_def emit_def env_fail_def env0_def
          is_add_cmd_def is_remove_cmd_def repoA_def Let_def)
  have c: "cleanupWorkspaceDirectory ?E ''/ws/demo'' ?w = ?w"
    by (simp add: cleanupWorkspaceDirectory_def os_Stat_def fs_exists_def below_def os_ReadDir_def
          expectedFiles_def env_fail_def env0_def Let_def)
  have s: "createWorkspaceStructure ?E ?ws empty_world
      = (Some (Wrap (Wrap (External ''exit status 128'') (''git command failed: '' @ ''fatal''))
                 (''failed to create worktree for '' @ ''b'')), ?w)"
    using a b r c
    by (simp add: createWorkspaceStructure_def os_MkdirAll_def fs_add_def empty_world_def
          env_fail_def env0_def filepath_Join_def repoA_def repoB_def)
  have C: "CreateWorkspace ?E wm0 ''demo'' [''a'', ''b''] [] [] False empty_world
      = (Inl (Wrap (Wrap (Wrap (External ''exit status 128'') (''git command failed: '' @ ''fatal''))
                 (''failed to create worktree for '' @ ''b''))
                ''failed to create workspace structure''), ?w)"
    using s by (simp add: CreateWorkspace_def f built del: shouldCreateGoWorkspace.simps)
  show ?thesis unfolding C by (simp add: fs_exists_def below_def)
qed

theorem create_failure_unwinds_witness:
  "\<exists>e w'.
      CreateWorkspace (env_fail (\<lambda>dir args. dir = ''/src/b'' \<and> is_add_cmd args)) wm0 ''demo''
        [''a'', ''b''] [] [] False empty_world = (Inl e, w')
    \<and> saved w' = saved empty_world
    \<and> removals (trace w')
        = [Exec ''/src/a'' [''git'', ''worktree'', ''remove'', ''--force'', ''/ws/demo/a''] None]
    \<and> \<not> fs_exists w' ''/ws/demo/a''"
proof -
  let ?E = "env_fail (\<lambda>dir args. dir = ''/src/b'' \<and> is_add_cmd args)"
  let ?ws = "new_workspace ?E wm0 ''demo'' [repoA, repoB] [] []"
  have f: "FindRepositories wm0 [''a'', ''b''] = Inr [repoA, repoB]"
    by (simp add: FindRepositories_def wm0_def repoA_def repoB_def)
  have ws: "ws_Path ?ws = ''/ws/demo''" "Repositories ?ws = [repoA, repoB]" "Branch ?ws = []"
    by (simp_all add: new_workspace_def wm0_def filepath_Join_def)
  have oa': "\<And>W. Branch W = [] \<Longrightarrow> worktree_outcome ?E W repoA = None"
    by (simp add: worktree_outcome_def createWorktree_def ExecuteWorktreeCommand_def
          run_cmd_def env_fail_def env0_def is_add_cmd_def repoA_def Let_def)
  have ob': "\<And>W. Branch W = [] \<Longrightarrow> worktree_outcome ?E W repoB \<noteq> None"
    by (simp add: worktree_outcome_def createWorktree_def ExecuteWorktreeCommand_def
          run_cmd_def env_fail_def env0_def is_add_cmd_def repoB_def Let_def)
  have oa: "worktree_outcome ?E ?ws repoA = None" using oa'[OF ws(3)] .
  have ob: "worktree_outcome ?E ?ws repoB \<noteq> None" using ob'[OF ws(3)] .
  have cb: "created_before_failure ?E ?ws = [worktree_info ?ws repoA]"
    using oa ob by (simp add: created_before_failure_def ws)
  have wi': "\<And>W. ws_Path W = ''/ws/demo'' \<Longrightarrow>
               TargetPath (worktree_info W repoA) = ''/ws/demo/a''
               \<and> Path (wt_Repository (worktree_info W repoA)) = ''/src/a''"
    by (simp add: worktree_info_def filepath_Join_def repoA_def)
  have wi: "TargetPath (worktree_info ?ws repoA) = ''/ws/demo/a''"
           "Path (wt_Repository (worktree_info ?ws repoA)) = ''/src/a''"
    using wi'[OF ws(1)] by blast+
  have g: "git_run ?E ''/src/a'' [''git'', ''worktree'', ''remove'', ''--force'', ''/ws/demo/a'']
             = None"
    by (simp add: env_fail_def env0_def)
  have mk: "mkdir_err ?E (filepath_Join (workspaceDir wm0) ''demo'') = None"
    by (simp add: env_fail_def env0_def)
  have F: "(\<exists>r\<in>set [repoA, repoB]. worktree_outcome ?E ?ws r \<noteq> None)
         \<or> descriptor_outcome ?E ?ws \<noteq> None \<or> agent_outcome ?E ?ws \<noteq> None"
    using ob by simp
  from create_failure_unwinds[of "''demo''" wm0 "[''a'', ''b'']" "[repoA, repoB]" ?E "[]" "[]"
         empty_world, OF _ f mk F]
  obtain e w' where
    r: "CreateWorkspace ?E wm0 ''demo'' [''a'', ''b''] [] [] False empty_world = (Inl e, w')"
       "saved w' = saved empty_world"
       "removals (trace w')
          = removals (trace empty_world) @ map (forced_removal ?E) (rev (created_before_failure ?E ?ws))"
       "\<forall>wt\<in>set (created_before_failure ?E ?ws). fs_exists w' (TargetPath wt)
          \<longrightarrow> git_run ?E (Path (wt_Repository wt))
                [''git'', ''worktree'', ''remove'', ''--force'', TargetPath wt] \<noteq> None"
    by auto
  from r(3) have 3: "removals (trace w')
        = [Exec ''/src/a'' [''git'', ''worktree'', ''remove'', ''--force'', ''/ws/demo/a''] None]"
    by (simp add: cb forced_removal_def wi g empty_world_def removals_def Let_def)
  from r(4) have 4: "\<not> fs_exists w' ''/ws/demo/a''"
    by (simp add: cb wi g)
  from r(1,2) 3 4 show ?thesis by blast
qed

end
